theory Spec2Isabelle
  imports Main "HOL-Library.Word"
begin

unbundle bit_operations_syntax

section \<open>Synaptics DSX firmware updater: data model\<close>

text \<open>
  The driver is C. Its integers are modelled with their widths: \<open>unsigned char\<close> is
  \<open>8 word\<close>, \<open>unsigned short\<close> is \<open>16 word\<close>, \<open>unsigned int\<close> is \<open>32 word\<close>;
  return values (\<open>int retval\<close>) are \<open>int\<close>, negative for an error. Register
  addresses are sums of byte-sized bases and offsets and are kept as \<open>nat\<close>.
\<close>

type_synonym byte = "8 word"
type_synonym u16 = "16 word"
type_synonym u32 = "32 word"

subsection \<open>Constants\<close>

text \<open>The errno values are those of the Linux kernel (\<open>errno-base.h\<close>, \<open>errno.h\<close>).\<close>

definition ENOMEM :: int where "ENOMEM = 12"
definition ENODEV :: int where "ENODEV = 19"
definition EINVAL :: int where "EINVAL = 22"
definition ETIMEDOUT :: int where "ETIMEDOUT = 110"

text \<open>\<open>enum bl_version\<close>. The field of the handle is zero until a scan has set it, and the
  code compares it with \<open>>=\<close> and \<open><=\<close>, so it is kept as a number.\<close>

definition BL_V5 :: nat where "BL_V5 = 5"
definition BL_V6 :: nat where "BL_V6 = 6"
definition BL_V7 :: nat where "BL_V7 = 7"
definition BL_V8 :: nat where "BL_V8 = 8"

text \<open>\<open>enum flash_area\<close>: the outcome of the go/no-go decision.\<close>

datatype flash_area = NONE | UI_FIRMWARE | UI_CONFIG

text \<open>\<open>enum config_area\<close>; the handle stores it in an \<open>unsigned short\<close>.\<close>

definition UI_CONFIG_AREA :: u16 where "UI_CONFIG_AREA = 0"
definition PM_CONFIG_AREA :: u16 where "PM_CONFIG_AREA = 1"
definition BL_CONFIG_AREA :: u16 where "BL_CONFIG_AREA = 2"
definition DP_CONFIG_AREA :: u16 where "DP_CONFIG_AREA = 3"
definition FLASH_CONFIG_AREA :: u16 where "FLASH_CONFIG_AREA = 4"

definition V5V6_CONFIG_ID_SIZE :: nat where "V5V6_CONFIG_ID_SIZE = 4"
definition V7_CONFIG_ID_SIZE :: nat where "V7_CONFIG_ID_SIZE = 32"

text \<open>\<open>enum flash_command\<close>, the version-independent commands, and the value each has as a
  C enumerator.\<close>

datatype flash_command =
    CMD_IDLE | CMD_WRITE_FW | CMD_WRITE_CONFIG | CMD_WRITE_LOCKDOWN | CMD_WRITE_GUEST_CODE
  | CMD_READ_CONFIG | CMD_ERASE_ALL | CMD_ERASE_UI_FIRMWARE | CMD_ERASE_UI_CONFIG
  | CMD_ERASE_BL_CONFIG | CMD_ERASE_DISP_CONFIG | CMD_ERASE_FLASH_CONFIG
  | CMD_ERASE_GUEST_CODE | CMD_ENABLE_FLASH_PROG

fun flash_command_value :: "flash_command \<Rightarrow> byte" where
  "flash_command_value CMD_IDLE = 0"
| "flash_command_value CMD_WRITE_FW = 1"
| "flash_command_value CMD_WRITE_CONFIG = 2"
| "flash_command_value CMD_WRITE_LOCKDOWN = 3"
| "flash_command_value CMD_WRITE_GUEST_CODE = 4"
| "flash_command_value CMD_READ_CONFIG = 5"
| "flash_command_value CMD_ERASE_ALL = 6"
| "flash_command_value CMD_ERASE_UI_FIRMWARE = 7"
| "flash_command_value CMD_ERASE_UI_CONFIG = 8"
| "flash_command_value CMD_ERASE_BL_CONFIG = 9"
| "flash_command_value CMD_ERASE_DISP_CONFIG = 10"
| "flash_command_value CMD_ERASE_FLASH_CONFIG = 11"
| "flash_command_value CMD_ERASE_GUEST_CODE = 12"
| "flash_command_value CMD_ENABLE_FLASH_PROG = 13"

text \<open>\<open>enum v7_flash_command\<close>, \<open>enum v5v6_flash_command\<close>, \<open>enum v7_partition_id\<close>,
  \<open>enum v7_status\<close> and \<open>enum f35_flash_command\<close>: the bytes that go over the bus.\<close>

definition CMD_V7_IDLE :: byte where "CMD_V7_IDLE = 0x00"
definition CMD_V7_ENTER_BL :: byte where "CMD_V7_ENTER_BL = 0x01"
definition CMD_V7_READ :: byte where "CMD_V7_READ = 0x02"
definition CMD_V7_WRITE :: byte where "CMD_V7_WRITE = 0x03"
definition CMD_V7_ERASE :: byte where "CMD_V7_ERASE = 0x04"
definition CMD_V7_ERASE_AP :: byte where "CMD_V7_ERASE_AP = 0x05"

definition CMD_V5V6_IDLE :: byte where "CMD_V5V6_IDLE = 0x0"
definition CMD_V5V6_WRITE_FW :: byte where "CMD_V5V6_WRITE_FW = 0x2"
definition CMD_V5V6_ERASE_ALL :: byte where "CMD_V5V6_ERASE_ALL = 0x3"
definition CMD_V5V6_WRITE_LOCKDOWN :: byte where "CMD_V5V6_WRITE_LOCKDOWN = 0x4"
definition CMD_V5V6_READ_CONFIG :: byte where "CMD_V5V6_READ_CONFIG = 0x5"
definition CMD_V5V6_WRITE_CONFIG :: byte where "CMD_V5V6_WRITE_CONFIG = 0x6"
definition CMD_V5V6_ERASE_UI_CONFIG :: byte where "CMD_V5V6_ERASE_UI_CONFIG = 0x7"
definition CMD_V5V6_ERASE_BL_CONFIG :: byte where "CMD_V5V6_ERASE_BL_CONFIG = 0x9"
definition CMD_V5V6_ERASE_DISP_CONFIG :: byte where "CMD_V5V6_ERASE_DISP_CONFIG = 0xa"
definition CMD_V5V6_ERASE_GUEST_CODE :: byte where "CMD_V5V6_ERASE_GUEST_CODE = 0xb"
definition CMD_V5V6_WRITE_GUEST_CODE :: byte where "CMD_V5V6_WRITE_GUEST_CODE = 0xc"
definition CMD_V5V6_ENABLE_FLASH_PROG :: byte where "CMD_V5V6_ENABLE_FLASH_PROG = 0xf"

definition BOOTLOADER_PARTITION :: byte where "BOOTLOADER_PARTITION = 0x01"
definition FLASH_CONFIG_PARTITION :: byte where "FLASH_CONFIG_PARTITION = 0x03"
definition GLOBAL_PARAMETERS_PARTITION :: byte where "GLOBAL_PARAMETERS_PARTITION = 0x06"
definition CORE_CODE_PARTITION :: byte where "CORE_CODE_PARTITION = 0x07"
definition CORE_CONFIG_PARTITION :: byte where "CORE_CONFIG_PARTITION = 0x08"
definition GUEST_CODE_PARTITION :: byte where "GUEST_CODE_PARTITION = 0x09"
definition DISPLAY_CONFIG_PARTITION :: byte where "DISPLAY_CONFIG_PARTITION = 0x0a"

definition BAD_PARTITION_TABLE :: byte where "BAD_PARTITION_TABLE = 0x08"

definition CMD_F35_WRITE_CHUNK :: byte where "CMD_F35_WRITE_CHUNK = 0x2"

definition F35_ERROR_CODE_OFFSET :: nat where "F35_ERROR_CODE_OFFSET = 0"
definition F35_CHUNK_NUM_LSB_OFFSET :: nat where "F35_CHUNK_NUM_LSB_OFFSET = 0"
definition F35_CHUNK_DATA_OFFSET :: nat where "F35_CHUNK_DATA_OFFSET = 2"
definition F35_CHUNK_SIZE :: nat where "F35_CHUNK_SIZE = 16"

definition ENABLE_WAIT_MS :: nat where "ENABLE_WAIT_MS = 1 * 1000"
definition WRITE_WAIT_MS :: nat where "WRITE_WAIT_MS = 3 * 1000"
definition ERASE_WAIT_MS :: nat where "ERASE_WAIT_MS = 5 * 1000"

subsection \<open>Structures\<close>

text \<open>\<open>struct block_data\<close>: a size and a pointer into the image. The pointer is modelled
  by the bytes that can be read through it: \<open>None\<close> is the null pointer, \<open>Some bs\<close> the
  bytes from the pointer to the end of the buffer it points into.\<close>

record block_data =
  bd_size :: u32
  bd_data :: "byte list option"

record block_count =
  blk_ui_firmware :: u16
  blk_ui_config :: u16
  blk_dp_config :: u16
  blk_fl_config :: u16
  blk_pm_config :: u16
  blk_bl_config :: u16
  blk_lockdown :: u16
  blk_guest_code :: u16

record physical_address =
  phy_ui_firmware :: u16
  phy_ui_config :: u16
  phy_dp_config :: u16
  phy_guest_code :: u16

record register_offset =
  off_properties :: byte
  off_properties_2 :: byte
  off_block_size :: byte
  off_block_count :: byte
  off_gc_block_count :: byte
  off_flash_status :: byte
  off_partition_id :: byte
  off_block_number :: byte
  off_transfer_length :: byte
  off_flash_cmd :: byte
  off_payload :: byte

text \<open>\<open>struct synaptics_rmi4_fn_desc\<close>, one entry of the descriptor table. The structure is
  declared in \<open>synaptics_dsx_i2c.h\<close>; the fields are the ones the updater reads. The
  interrupt-source count is a bit field of three bits.\<close>

record synaptics_rmi4_fn_desc =
  query_base_addr :: byte
  cmd_base_addr :: byte
  ctrl_base_addr :: byte
  data_base_addr :: byte
  intr_src_count :: "3 word"
  fn_version :: byte
  fn_number :: byte

text \<open>What the updater takes from \<open>synaptics_dsx_i2c.h\<close>, a header of the driver that is
  not among the sources. Its macros and the layout of a descriptor-table entry are
  parameters of the model: the bit masks, the three function numbers, the addresses the
  descriptor scan visits (\<open>PDT_START\<close>, then down in steps of \<open>PDT_ENTRY_SIZE\<close> while
  above \<open>PDT_END\<close>), \<open>sizeof(struct synaptics_rmi4_fn_desc)\<close> and the reading of the bytes
  of an entry as that structure; the number of bytes of a build id and the function
  \<open>batohui\<close>, which makes an \<open>unsigned int\<close> of that many bytes.\<close>

record dsx_header =
  MASK_3BIT :: byte
  MASK_4BIT :: byte
  MASK_5BIT :: byte
  MASK_6BIT :: byte
  MASK_7BIT :: byte
  SYNAPTICS_RMI4_F01 :: byte
  SYNAPTICS_RMI4_F34 :: byte
  SYNAPTICS_RMI4_F35 :: byte
  SYNAPTICS_RMI4_BUILD_ID_SIZE :: nat
  batohui :: "byte list \<Rightarrow> u32"
  pdt_addrs :: "nat list"
  sizeof_fn_desc :: nat
  fn_desc_of :: "byte list \<Rightarrow> synaptics_rmi4_fn_desc"

text \<open>\<open>struct image_metadata\<close> (the fields the modelled functions use).\<close>

record image_metadata =
  contains_firmware_id :: bool
  contains_bootloader :: bool
  contains_disp_config :: bool
  contains_guest_code :: bool
  contains_flash_config :: bool
  firmware_id :: u32
  ui_firmware :: block_data
  ui_config :: block_data
  lockdown :: block_data
  img_blkcount :: block_count
  img_phyaddr :: physical_address

text \<open>\<open>struct synaptics_rmi4_fwu_handle\<close>, together with the fields of
  \<open>struct synaptics_rmi4_data\<close> that the updater reaches through \<open>fwu->rmi4_data\<close>
  (the four F01 base addresses and \<open>rmi4_mod_info.build_id\<close>). \<open>has_disp_config\<close> is
  \<open>flash_properties.has_disp_config\<close>; \<open>image_buf\<close> is the pointer \<open>image\<close>.\<close>

record synaptics_rmi4_fwu_handle =
  bl_version :: nat
  initialized :: bool
  in_bl_mode :: bool
  in_ub_mode :: bool
  force_update :: bool
  has_guest_code :: bool
  new_partition_table :: bool
  intr_mask :: byte
  command :: byte
  bootloader_id :: "byte \<times> byte"
  config_id :: "byte list"
  flash_status :: byte
  partitions :: byte
  block_size :: u16
  config_area :: u16
  image_buf :: "byte list option"
  image_size :: u32
  img :: image_metadata
  off :: register_offset
  blkcount :: block_count
  phyaddr :: physical_address
  has_disp_config :: bool
  f34_fd :: synaptics_rmi4_fn_desc
  f35_fd :: synaptics_rmi4_fn_desc
  f01_query_base_addr :: nat
  f01_ctrl_base_addr :: nat
  f01_data_base_addr :: nat
  f01_cmd_base_addr :: nat
  build_id :: "byte \<times> byte \<times> byte"

text \<open>The handle as \<open>kzalloc\<close> returns it: every field zero, every pointer null.\<close>

definition zero_block_data :: block_data where
  "zero_block_data = \<lparr>bd_size = 0, bd_data = None\<rparr>"

definition zero_block_count :: block_count where
  "zero_block_count = \<lparr>blk_ui_firmware = 0, blk_ui_config = 0, blk_dp_config = 0,
     blk_fl_config = 0, blk_pm_config = 0, blk_bl_config = 0, blk_lockdown = 0,
     blk_guest_code = 0\<rparr>"

definition zero_physical_address :: physical_address where
  "zero_physical_address = \<lparr>phy_ui_firmware = 0, phy_ui_config = 0, phy_dp_config = 0,
     phy_guest_code = 0\<rparr>"

definition zero_register_offset :: register_offset where
  "zero_register_offset = \<lparr>off_properties = 0, off_properties_2 = 0, off_block_size = 0,
     off_block_count = 0, off_gc_block_count = 0, off_flash_status = 0, off_partition_id = 0,
     off_block_number = 0, off_transfer_length = 0, off_flash_cmd = 0, off_payload = 0\<rparr>"

definition zero_fn_desc :: synaptics_rmi4_fn_desc where
  "zero_fn_desc = \<lparr>query_base_addr = 0, cmd_base_addr = 0, ctrl_base_addr = 0,
     data_base_addr = 0, intr_src_count = 0, fn_version = 0, fn_number = 0\<rparr>"

definition zero_image_metadata :: image_metadata where
  "zero_image_metadata = \<lparr>contains_firmware_id = False, contains_bootloader = False,
     contains_disp_config = False, contains_guest_code = False,
     contains_flash_config = False, firmware_id = 0, ui_firmware = zero_block_data,
     ui_config = zero_block_data, lockdown = zero_block_data,
     img_blkcount = zero_block_count, img_phyaddr = zero_physical_address\<rparr>"

definition zero_handle :: synaptics_rmi4_fwu_handle where
  "zero_handle = \<lparr>bl_version = 0, initialized = False, in_bl_mode = False,
     in_ub_mode = False, force_update = False, has_guest_code = False,
     new_partition_table = False, intr_mask = 0, command = 0, bootloader_id = (0, 0),
     config_id = replicate 32 0, flash_status = 0, partitions = 0, block_size = 0,
     config_area = 0,
     image_buf = None, image_size = 0, img = zero_image_metadata,
     off = zero_register_offset, blkcount = zero_block_count,
     phyaddr = zero_physical_address, has_disp_config = False, f34_fd = zero_fn_desc,
     f35_fd = zero_fn_desc, f01_query_base_addr = 0, f01_ctrl_base_addr = 0,
     f01_data_base_addr = 0, f01_cmd_base_addr = 0, build_id = (0, 0, 0)\<rparr>"

subsection \<open>The register bus\<close>

text \<open>
  The transport (\<open>synaptics_rmi4_reg_read\<close>, \<open>synaptics_rmi4_reg_write\<close>) and the
  completion semaphore (\<open>down_timeout\<close>) are outside the driver. Every call is one
  \<open>bus_op\<close>; the calls made so far are kept in a log, oldest first. The device is any
  function from the log and the new call to a return value and, for a read, the bytes
  read: this covers every behaviour of the hardware, transport failures included.
  A read of \<open>len\<close> bytes fills a buffer of \<open>len\<close> bytes.
\<close>

datatype bus_op = Reg_Read nat nat | Reg_Write nat "byte list" | Down_Timeout nat

type_synonym device = "bus_op list \<Rightarrow> bus_op \<Rightarrow> int \<times> byte list"

definition reg_read :: "device \<Rightarrow> nat \<Rightarrow> nat \<Rightarrow> bus_op list \<Rightarrow> int \<times> byte list \<times> bus_op list" where
  "reg_read dev addr len l =
     (fst (dev l (Reg_Read addr len)),
      take len (snd (dev l (Reg_Read addr len)) @ replicate len 0),
      l @ [Reg_Read addr len])"

definition reg_write :: "device \<Rightarrow> nat \<Rightarrow> byte list \<Rightarrow> bus_op list \<Rightarrow> int \<times> bus_op list" where
  "reg_write dev addr bs l = (fst (dev l (Reg_Write addr bs)), l @ [Reg_Write addr bs])"

definition down_timeout :: "device \<Rightarrow> nat \<Rightarrow> bus_op list \<Rightarrow> int \<times> bus_op list" where
  "down_timeout dev ms l = (fst (dev l (Down_Timeout ms)), l @ [Down_Timeout ms])"

section \<open>Partition tables\<close>











section \<open>The go/no-go decision\<close>

text \<open>\<open>le_to_uint\<close>, on the four bytes \<open>ptr[0]\<close> .. \<open>ptr[3]\<close>.\<close>

definition le_to_uint :: "byte \<Rightarrow> byte \<Rightarrow> byte \<Rightarrow> byte \<Rightarrow> u32" where
  "le_to_uint p0 p1 p2 p3 =
     ucast p0 + ucast p1 * 0x100 + ucast p2 * 0x10000 + ucast p3 * 0x1000000"

text \<open>\<open>fwu_get_device_firmware_id\<close> stores \<open>0\<close> and the three bytes of the device's build
  id through a byte pointer to the \<open>unsigned int\<close>: on the little-endian processors the
  driver runs on, the identifier is the word with these four bytes, lowest first.\<close>

definition fwu_get_device_firmware_id :: "synaptics_rmi4_fwu_handle \<Rightarrow> u32" where
  "fwu_get_device_firmware_id s =
     (case build_id s of (b0, b1, b2) \<Rightarrow> le_to_uint 0 b0 b1 b2)"

text \<open>\<open>fwu_get_image_firmware_id\<close>: the identifier, or the error value.\<close>

definition fwu_get_image_firmware_id :: "synaptics_rmi4_fwu_handle \<Rightarrow> int + u32" where
  "fwu_get_image_firmware_id s =
     (if contains_firmware_id (img s) then Inr (firmware_id (img s)) else Inl (- EINVAL))"

definition config_id_size :: "synaptics_rmi4_fwu_handle \<Rightarrow> nat" where
  "config_id_size s = (if bl_version s \<ge> BL_V7 then V7_CONFIG_ID_SIZE else V5V6_CONFIG_ID_SIZE)"

text \<open>\<open>fwu_get_device_config_id\<close>: one read of \<open>config_id_size\<close> bytes at the control base
  of F34 into the first bytes of \<open>fwu->config_id\<close>. After a failed read the array is
  taken as unchanged (no modelled function reads it then).\<close>

definition fwu_get_device_config_id ::
  "device \<Rightarrow> synaptics_rmi4_fwu_handle \<Rightarrow> bus_op list \<Rightarrow> int \<times> synaptics_rmi4_fwu_handle \<times> bus_op list" where
  "fwu_get_device_config_id dev s l =
     (let (retval, buf, l') = reg_read dev (unat (ctrl_base_addr (f34_fd s))) (config_id_size s) l
      in if retval < 0 then (retval, s, l')
         else (0, s\<lparr>config_id := buf @ drop (config_id_size s) (config_id s)\<rparr>, l'))"

text \<open>The comparison loop of \<open>fwu_go_nogo\<close>, from index \<open>ii\<close>. The image's configuration
  is read through \<open>img.ui_config.data\<close>; a read through the null pointer or past the end
  of the buffer is undefined in C, and the result is \<open>None\<close> then.\<close>

function config_id_loop :: "nat \<Rightarrow> nat \<Rightarrow> byte list option \<Rightarrow> byte list \<Rightarrow> flash_area option" where
  "config_id_loop ii n d c =
     (if ii < n then
        (case d of
           None \<Rightarrow> None
         | Some bs \<Rightarrow>
             if ii < length bs \<and> ii < length c then
               (if bs ! ii > c ! ii then Some UI_CONFIG
                else if bs ! ii < c ! ii then Some NONE
                else config_id_loop (ii + 1) n d c)
             else None)
      else Some NONE)"
  by pat_completeness auto
termination
  by (relation "measure (\<lambda>(ii, n, d, c). n - ii)") auto

declare config_id_loop.simps [simp del]

text \<open>\<open>fwu_go_nogo\<close>. The result is the area to flash (\<open>None\<close> when the comparison loop
  is undefined), the handle and the bus log.\<close>

definition fwu_go_nogo ::
  "device \<Rightarrow> synaptics_rmi4_fwu_handle \<Rightarrow> bus_op list \<Rightarrow>
     flash_area option \<times> synaptics_rmi4_fwu_handle \<times> bus_op list" where
  "fwu_go_nogo dev s l =
     (if force_update s then (Some UI_FIRMWARE, s, l)
      else if in_bl_mode s then (Some UI_FIRMWARE, s, l)
      else
        (let device_fw_id = fwu_get_device_firmware_id s in
         case fwu_get_image_firmware_id s of
           Inl retval \<Rightarrow> (Some NONE, s, l)
         | Inr image_fw_id \<Rightarrow>
             if image_fw_id \<noteq> device_fw_id then (Some UI_FIRMWARE, s, l)
             else
               (let (retval, s', l') = fwu_get_device_config_id dev s l
                in if retval < 0 then (Some NONE, s', l')
                   else (config_id_loop 0 (config_id_size s') (bd_data (ui_config (img s')))
                           (config_id s'), s', l'))))"

section \<open>Size validation\<close>

text \<open>\<open>fwu_check_ui_firmware_size\<close>: the quotient of two unsigned numbers, stored in an
  \<open>unsigned short\<close>, against the device's block count. Division by a zero block size is
  undefined in C: the result is \<open>None\<close> then.\<close>

definition fwu_check_ui_firmware_size :: "synaptics_rmi4_fwu_handle \<Rightarrow> int option" where
  "fwu_check_ui_firmware_size s =
     (if block_size s = 0 then None
      else
        (let block_count = (ucast (bd_size (ui_firmware (img s)) div ucast (block_size s)) :: u16)
         in if block_count \<noteq> blk_ui_firmware (blkcount s) then Some (- EINVAL) else Some 0))"

section \<open>Flash status and the completion wait\<close>

text \<open>\<open>fwu_read_interrupt_status\<close>: the status byte as a non-negative \<open>int\<close>, or the
  transport's error.\<close>

definition fwu_read_interrupt_status ::
  "device \<Rightarrow> synaptics_rmi4_fwu_handle \<Rightarrow> bus_op list \<Rightarrow> int \<times> bus_op list" where
  "fwu_read_interrupt_status dev s l =
     (let (retval, buf, l') = reg_read dev (f01_data_base_addr s + 1) 1 l
      in if retval < 0 then (retval, l') else (uint (buf ! 0), l'))"

text \<open>\<open>fwu_read_flash_status\<close>. \<open>struct f34_v7_data_1_5\<close> is eight bytes; its command is
  byte 5.\<close>

definition fwu_read_flash_status ::
  "dsx_header \<Rightarrow> device \<Rightarrow> synaptics_rmi4_fwu_handle \<Rightarrow> bus_op list \<Rightarrow>
     int \<times> synaptics_rmi4_fwu_handle \<times> bus_op list" where
  "fwu_read_flash_status h dev s l =
     (let (retval, buf, l1) =
            reg_read dev (unat (data_base_addr (f34_fd s)) + unat (off_flash_status (off s))) 1 l
      in if retval < 0 then (retval, s, l1)
         else
           (let status = buf ! 0;
                s1 = s\<lparr>in_bl_mode := (drop_bit 7 status \<noteq> 0)\<rparr>;
                s2 = s1\<lparr>flash_status :=
                        (if bl_version s1 = BL_V5 then drop_bit 4 status AND MASK_3BIT h
                         else if bl_version s1 = BL_V6 then status AND MASK_3BIT h
                         else status AND MASK_5BIT h)\<rparr>
            in if bl_version s2 \<le> BL_V6 then
                 (let (retval, cbuf, l2) =
                        reg_read dev (unat (data_base_addr (f34_fd s2)) + unat (off_flash_cmd (off s2))) 1 l1
                  in if retval < 0 then (retval, s2, l2)
                     else
                       (let command' = cbuf ! 0
                        in (0, s2\<lparr>command :=
                                  (if bl_version s2 = BL_V5 then command' AND MASK_4BIT h
                                   else if bl_version s2 = BL_V6 then command' AND MASK_6BIT h
                                   else command')\<rparr>, l2)))
               else
                 (let (retval, data15, l2) =
                        reg_read dev (unat (data_base_addr (f34_fd s2)) + unat (off_partition_id (off s2))) 8 l1
                  in if retval < 0 then (retval, s2, l2)
                     else
                       (let s3 = (if flash_status s2 = BAD_PARTITION_TABLE
                                  then s2\<lparr>flash_status := 0x00\<rparr> else s2)
                        in (0, s3\<lparr>command := data15 ! 5\<rparr>, l2)))))"

text \<open>\<open>fwu_wait_for_idle\<close>. \<open>retval\<close> is assigned three times, as in the source: the
  result of \<open>down_timeout\<close>, \<open>-ETIMEDOUT\<close> when that is not zero, and then the result of
  \<open>fwu_read_interrupt_status\<close>. The result of \<open>fwu_read_flash_status\<close> is dropped.\<close>

definition fwu_wait_for_idle ::
  "dsx_header \<Rightarrow> device \<Rightarrow> nat \<Rightarrow> synaptics_rmi4_fwu_handle \<Rightarrow> bus_op list \<Rightarrow>
     int \<times> synaptics_rmi4_fwu_handle \<times> bus_op list" where
  "fwu_wait_for_idle h dev timeout_ms s l =
     (let (retval, l1) = down_timeout dev timeout_ms l;
          retval = (if retval \<noteq> 0 then - ETIMEDOUT else retval);
          (retval, l2) = fwu_read_interrupt_status dev s l1;
          (ignored, s', l3) = fwu_read_flash_status h dev s l2
      in if command s' = flash_command_value CMD_IDLE \<and> flash_status s' = 0x00
         then (0, s', l3)
         else (retval, s', l3))"

section \<open>Flash commands\<close>

text \<open>The bytes of \<open>struct f34_v7_data_1_5\<close> after \<open>memset\<close> to zero and the assignments
  to \<open>partition_id\<close> (a field of five bits in byte 0), \<open>command\<close> (byte 5) and the two
  payload bytes (bytes 6 and 7).\<close>

definition data_1_5_bytes :: "byte \<Rightarrow> byte \<Rightarrow> byte \<times> byte \<Rightarrow> byte list" where
  "data_1_5_bytes partition_id' command' bl_id =
     [partition_id' AND 0x1f, 0, 0, 0, 0, command', fst bl_id, snd bl_id]"

text \<open>The first \<open>switch\<close> of \<open>fwu_write_f34_v7_command_single_transaction\<close>: partition and
  command of the eight erase and enable commands; any other command leaves both zero.\<close>

fun single_transaction_fields :: "flash_command \<Rightarrow> byte \<times> byte" where
  "single_transaction_fields CMD_ERASE_ALL = (CORE_CODE_PARTITION, CMD_V7_ERASE_AP)"
| "single_transaction_fields CMD_ERASE_UI_FIRMWARE = (CORE_CODE_PARTITION, CMD_V7_ERASE)"
| "single_transaction_fields CMD_ERASE_BL_CONFIG = (GLOBAL_PARAMETERS_PARTITION, CMD_V7_ERASE)"
| "single_transaction_fields CMD_ERASE_UI_CONFIG = (CORE_CONFIG_PARTITION, CMD_V7_ERASE)"
| "single_transaction_fields CMD_ERASE_DISP_CONFIG = (DISPLAY_CONFIG_PARTITION, CMD_V7_ERASE)"
| "single_transaction_fields CMD_ERASE_FLASH_CONFIG = (FLASH_CONFIG_PARTITION, CMD_V7_ERASE)"
| "single_transaction_fields CMD_ERASE_GUEST_CODE = (GUEST_CODE_PARTITION, CMD_V7_ERASE)"
| "single_transaction_fields CMD_ENABLE_FLASH_PROG = (BOOTLOADER_PARTITION, CMD_V7_ENTER_BL)"
| "single_transaction_fields _ = (0, 0)"

definition fwu_write_f34_v7_command_single_transaction ::
  "device \<Rightarrow> flash_command \<Rightarrow> synaptics_rmi4_fwu_handle \<Rightarrow> bus_op list \<Rightarrow> int \<times> bus_op list" where
  "fwu_write_f34_v7_command_single_transaction dev cmd s l =
     (let base = unat (data_base_addr (f34_fd s));
          (partition_id', command') = single_transaction_fields cmd;
          (retval, l') = reg_write dev (base + unat (off_partition_id (off s)))
                           (data_1_5_bytes partition_id' command' (bootloader_id s)) l
      in if retval < 0 then (retval, l') else (0, l'))"

text \<open>The first \<open>switch\<close> of \<open>fwu_write_f34_v7_command\<close>; \<open>None\<close> is its \<open>default\<close>.\<close>

fun v7_command_of :: "flash_command \<Rightarrow> byte option" where
  "v7_command_of CMD_WRITE_FW = Some CMD_V7_WRITE"
| "v7_command_of CMD_WRITE_CONFIG = Some CMD_V7_WRITE"
| "v7_command_of CMD_WRITE_GUEST_CODE = Some CMD_V7_WRITE"
| "v7_command_of CMD_READ_CONFIG = Some CMD_V7_READ"
| "v7_command_of CMD_ERASE_ALL = Some CMD_V7_ERASE_AP"
| "v7_command_of CMD_ERASE_UI_FIRMWARE = Some CMD_V7_ERASE"
| "v7_command_of CMD_ERASE_BL_CONFIG = Some CMD_V7_ERASE"
| "v7_command_of CMD_ERASE_UI_CONFIG = Some CMD_V7_ERASE"
| "v7_command_of CMD_ERASE_DISP_CONFIG = Some CMD_V7_ERASE"
| "v7_command_of CMD_ERASE_FLASH_CONFIG = Some CMD_V7_ERASE"
| "v7_command_of CMD_ERASE_GUEST_CODE = Some CMD_V7_ERASE"
| "v7_command_of CMD_ENABLE_FLASH_PROG = Some CMD_V7_ENTER_BL"
| "v7_command_of _ = None"

text \<open>The second \<open>switch\<close>: the commands sent as a single transaction.\<close>

fun v7_single_transaction :: "flash_command \<Rightarrow> bool" where
  "v7_single_transaction CMD_ERASE_ALL = True"
| "v7_single_transaction CMD_ERASE_UI_FIRMWARE = True"
| "v7_single_transaction CMD_ERASE_BL_CONFIG = True"
| "v7_single_transaction CMD_ERASE_UI_CONFIG = True"
| "v7_single_transaction CMD_ERASE_DISP_CONFIG = True"
| "v7_single_transaction CMD_ERASE_FLASH_CONFIG = True"
| "v7_single_transaction CMD_ERASE_GUEST_CODE = True"
| "v7_single_transaction CMD_ENABLE_FLASH_PROG = True"
| "v7_single_transaction _ = False"

definition fwu_write_f34_v7_command ::
  "device \<Rightarrow> flash_command \<Rightarrow> synaptics_rmi4_fwu_handle \<Rightarrow> bus_op list \<Rightarrow>
     int \<times> synaptics_rmi4_fwu_handle \<times> bus_op list" where
  "fwu_write_f34_v7_command dev cmd s l =
     (case v7_command_of cmd of
        None \<Rightarrow> (- EINVAL, s, l)
      | Some command' \<Rightarrow>
          (let base = unat (data_base_addr (f34_fd s));
               s' = s\<lparr>command := command'\<rparr>
           in if v7_single_transaction cmd then
                (let (retval, l') = fwu_write_f34_v7_command_single_transaction dev cmd s' l
                 in if retval < 0 then (retval, s', l') else (0, s', l'))
              else
                (let (retval, l') = reg_write dev (base + unat (off_flash_cmd (off s'))) [command'] l
                 in if retval < 0 then (retval, s', l') else (0, s', l'))))"

text \<open>The first \<open>switch\<close> of \<open>fwu_write_f34_v5v6_command\<close>; \<open>None\<close> is its \<open>default\<close>.\<close>

fun v5v6_command_of :: "flash_command \<Rightarrow> byte option" where
  "v5v6_command_of CMD_IDLE = Some CMD_V5V6_IDLE"
| "v5v6_command_of CMD_WRITE_FW = Some CMD_V5V6_WRITE_FW"
| "v5v6_command_of CMD_WRITE_CONFIG = Some CMD_V5V6_WRITE_CONFIG"
| "v5v6_command_of CMD_WRITE_LOCKDOWN = Some CMD_V5V6_WRITE_LOCKDOWN"
| "v5v6_command_of CMD_WRITE_GUEST_CODE = Some CMD_V5V6_WRITE_GUEST_CODE"
| "v5v6_command_of CMD_READ_CONFIG = Some CMD_V5V6_READ_CONFIG"
| "v5v6_command_of CMD_ERASE_ALL = Some CMD_V5V6_ERASE_ALL"
| "v5v6_command_of CMD_ERASE_UI_CONFIG = Some CMD_V5V6_ERASE_UI_CONFIG"
| "v5v6_command_of CMD_ERASE_DISP_CONFIG = Some CMD_V5V6_ERASE_DISP_CONFIG"
| "v5v6_command_of CMD_ERASE_GUEST_CODE = Some CMD_V5V6_ERASE_GUEST_CODE"
| "v5v6_command_of CMD_ENABLE_FLASH_PROG = Some CMD_V5V6_ENABLE_FLASH_PROG"
| "v5v6_command_of _ = None"

text \<open>The second \<open>switch\<close>: the commands that are preceded by the bootloader id.\<close>

fun v5v6_writes_bootloader_id :: "flash_command \<Rightarrow> bool" where
  "v5v6_writes_bootloader_id CMD_ERASE_ALL = True"
| "v5v6_writes_bootloader_id CMD_ERASE_UI_CONFIG = True"
| "v5v6_writes_bootloader_id CMD_ERASE_DISP_CONFIG = True"
| "v5v6_writes_bootloader_id CMD_ERASE_GUEST_CODE = True"
| "v5v6_writes_bootloader_id CMD_ENABLE_FLASH_PROG = True"
| "v5v6_writes_bootloader_id _ = False"

definition fwu_write_f34_v5v6_command ::
  "device \<Rightarrow> flash_command \<Rightarrow> synaptics_rmi4_fwu_handle \<Rightarrow> bus_op list \<Rightarrow>
     int \<times> synaptics_rmi4_fwu_handle \<times> bus_op list" where
  "fwu_write_f34_v5v6_command dev cmd s l =
     (case v5v6_command_of cmd of
        None \<Rightarrow> (- EINVAL, s, l)
      | Some command' \<Rightarrow>
          (let base = unat (data_base_addr (f34_fd s));
               (retval, l1) =
                 (if v5v6_writes_bootloader_id cmd
                  then reg_write dev (base + unat (off_payload (off s)))
                         [fst (bootloader_id s), snd (bootloader_id s)] l
                  else (0, l))
           in if retval < 0 then (retval, s, l1)
              else
                (let s' = s\<lparr>command := command'\<rparr>;
                     (retval, l2) = reg_write dev (base + unat (off_flash_cmd (off s'))) [command'] l1
                 in if retval < 0 then (retval, s', l2) else (0, s', l2))))"

definition fwu_write_f34_command ::
  "device \<Rightarrow> flash_command \<Rightarrow> synaptics_rmi4_fwu_handle \<Rightarrow> bus_op list \<Rightarrow>
     int \<times> synaptics_rmi4_fwu_handle \<times> bus_op list" where
  "fwu_write_f34_command dev cmd s l =
     (if bl_version s \<ge> BL_V7 then fwu_write_f34_v7_command dev cmd s l
      else fwu_write_f34_v5v6_command dev cmd s l)"

section \<open>Erasing\<close>

text \<open>\<open>fwu_erase_configuration\<close>: the \<open>switch\<close> on \<open>config_area\<close> has three cases and no
  default; then the wait.\<close>

definition fwu_erase_configuration ::
  "dsx_header \<Rightarrow> device \<Rightarrow> synaptics_rmi4_fwu_handle \<Rightarrow> bus_op list \<Rightarrow>
     int \<times> synaptics_rmi4_fwu_handle \<times> bus_op list" where
  "fwu_erase_configuration h dev s l =
     (let (retval, s1, l1) =
            (if config_area s = UI_CONFIG_AREA then fwu_write_f34_command dev CMD_ERASE_UI_CONFIG s l
             else if config_area s = DP_CONFIG_AREA then fwu_write_f34_command dev CMD_ERASE_DISP_CONFIG s l
             else if config_area s = BL_CONFIG_AREA then fwu_write_f34_command dev CMD_ERASE_BL_CONFIG s l
             else (0, s, l))
      in if retval < 0 then (retval, s1, l1)
         else
           (let (retval, s2, l2) = fwu_wait_for_idle h dev ERASE_WAIT_MS s1 l1
            in if retval < 0 then (retval, s2, l2) else (retval, s2, l2)))"

definition fwu_erase_guest_code ::
  "dsx_header \<Rightarrow> device \<Rightarrow> synaptics_rmi4_fwu_handle \<Rightarrow> bus_op list \<Rightarrow>
     int \<times> synaptics_rmi4_fwu_handle \<times> bus_op list" where
  "fwu_erase_guest_code h dev s l =
     (let (retval, s1, l1) = fwu_write_f34_command dev CMD_ERASE_GUEST_CODE s l
      in if retval < 0 then (retval, s1, l1)
         else
           (let (retval, s2, l2) = fwu_wait_for_idle h dev ERASE_WAIT_MS s1 l1
            in if retval < 0 then (retval, s2, l2) else (0, s2, l2)))"

text \<open>The end of \<open>fwu_erase_all\<close>, common to both branches: display configuration and
  guest code.\<close>

definition fwu_erase_all_tail ::
  "dsx_header \<Rightarrow> device \<Rightarrow> synaptics_rmi4_fwu_handle \<Rightarrow> bus_op list \<Rightarrow>
     int \<times> synaptics_rmi4_fwu_handle \<times> bus_op list" where
  "fwu_erase_all_tail h dev s l =
     (let (retval, s1, l1) =
            (if has_disp_config s
             then fwu_erase_configuration h dev (s\<lparr>config_area := DP_CONFIG_AREA\<rparr>) l
             else (0, s, l))
      in if retval < 0 then (retval, s1, l1)
         else if new_partition_table s1 \<and> has_guest_code s1 then
           (let (retval, s2, l2) = fwu_erase_guest_code h dev s1 l1
            in if retval < 0 then (retval, s2, l2) else (0, s2, l2))
         else (0, s1, l1))"

definition fwu_erase_all ::
  "dsx_header \<Rightarrow> device \<Rightarrow> synaptics_rmi4_fwu_handle \<Rightarrow> bus_op list \<Rightarrow>
     int \<times> synaptics_rmi4_fwu_handle \<times> bus_op list" where
  "fwu_erase_all h dev s l =
     (if bl_version s = BL_V7 then
        (let (retval, s1, l1) = fwu_write_f34_command dev CMD_ERASE_UI_FIRMWARE s l
         in if retval < 0 then (retval, s1, l1)
            else
              (let (retval, s2, l2) = fwu_wait_for_idle h dev ERASE_WAIT_MS s1 l1
               in if retval < 0 then (retval, s2, l2)
                  else
                    (let (retval, s3, l3) =
                           fwu_erase_configuration h dev (s2\<lparr>config_area := UI_CONFIG_AREA\<rparr>) l2
                     in if retval < 0 then (retval, s3, l3)
                        else fwu_erase_all_tail h dev s3 l3)))
      else
        (let (retval, s1, l1) = fwu_write_f34_command dev CMD_ERASE_ALL s l
         in if retval < 0 then (retval, s1, l1)
            else
              (let (retval, s2, l2) = fwu_wait_for_idle h dev ERASE_WAIT_MS s1 l1
               in if \<not> (bl_version s2 = BL_V8 \<and> flash_status s2 = BAD_PARTITION_TABLE) \<and> retval < 0
                  then (retval, s2, l2)
                  else if bl_version s2 = BL_V8 then (0, s2, l2)
                  else fwu_erase_all_tail h dev s2 l2)))"

section \<open>The descriptor-table scan\<close>

text \<open>\<open>enum f34_version\<close>.\<close>

definition F34_V0 :: byte where "F34_V0 = 0"
definition F34_V1 :: byte where "F34_V1 = 1"
definition F34_V2 :: byte where "F34_V2 = 2"

text \<open>\<open>fwu_recovery_check_status\<close>.\<close>

definition fwu_recovery_check_status ::
  "dsx_header \<Rightarrow> device \<Rightarrow> synaptics_rmi4_fwu_handle \<Rightarrow> bus_op list \<Rightarrow> int \<times> bus_op list" where
  "fwu_recovery_check_status h dev s l =
     (let base = unat (data_base_addr (f35_fd s));
          (retval, buf, l') = reg_read dev (base + F35_ERROR_CODE_OFFSET) 1 l
      in if retval < 0 then (retval, l')
         else
           (let status = buf ! 0 AND MASK_7BIT h
            in if status \<noteq> 0x00 then (- EINVAL, l') else (0, l')))"

text \<open>The interrupt mask of F34: bits \<open>intr_off\<close> .. \<open>intr_src + intr_off - 1\<close> of an
  \<open>unsigned char\<close> (a bit beyond the seventh is lost in the assignment).\<close>

definition f34_intr_mask :: "byte \<Rightarrow> 3 word \<Rightarrow> byte" where
  "f34_intr_mask intr_count intr_src =
     (let intr_off = unat intr_count mod 8
      in fold (\<lambda>ii mask. mask OR push_bit ii 1) [intr_off ..< unat intr_src + intr_off] 0)"

text \<open>The state of the scan loop: the running interrupt count, the three \<open>found\<close> flags,
  the handle and the bus log.\<close>

record scan_state =
  intr_count :: byte
  f01found :: bool
  f34found :: bool
  f35found :: bool
  scan_fwu :: synaptics_rmi4_fwu_handle
  scan_log :: "bus_op list"

text \<open>The body of the loop for an entry \<open>rmi_fd\<close> whose function number is not zero:
  the \<open>switch\<close>. \<open>Inl\<close> is the \<open>return -EINVAL\<close> for an unknown F34 version.\<close>

definition scan_pdt_entry ::
  "dsx_header \<Rightarrow> synaptics_rmi4_fn_desc \<Rightarrow> scan_state \<Rightarrow> int \<times> scan_state + scan_state" where
  "scan_pdt_entry h rmi_fd st =
     (let s = scan_fwu st in
      if fn_number rmi_fd = SYNAPTICS_RMI4_F01 h then
        Inr (st\<lparr>f01found := True,
                 scan_fwu := s\<lparr>f01_query_base_addr := unat (query_base_addr rmi_fd),
                                f01_ctrl_base_addr := unat (ctrl_base_addr rmi_fd),
                                f01_data_base_addr := unat (data_base_addr rmi_fd),
                                f01_cmd_base_addr := unat (cmd_base_addr rmi_fd)\<rparr>\<rparr>)
      else if fn_number rmi_fd = SYNAPTICS_RMI4_F34 h then
        (let s1 = s\<lparr>f34_fd := (f34_fd s)\<lparr>query_base_addr := query_base_addr rmi_fd,
                                            ctrl_base_addr := ctrl_base_addr rmi_fd,
                                            data_base_addr := data_base_addr rmi_fd\<rparr>\<rparr>;
             st1 = st\<lparr>f34found := True, scan_fwu := s1\<rparr>
         in if fn_version rmi_fd = F34_V0 \<or> fn_version rmi_fd = F34_V1 \<or> fn_version rmi_fd = F34_V2
            then
              Inr (st1\<lparr>scan_fwu := s1\<lparr>
                     bl_version := (if fn_version rmi_fd = F34_V0 then BL_V5
                                    else if fn_version rmi_fd = F34_V1 then BL_V6 else BL_V7),
                     intr_mask := f34_intr_mask (intr_count st) (intr_src_count rmi_fd)\<rparr>\<rparr>)
            else Inl (- EINVAL, st1))
      else if fn_number rmi_fd = SYNAPTICS_RMI4_F35 h then
        Inr (st\<lparr>f35found := True,
                 scan_fwu := s\<lparr>f35_fd := (f35_fd s)\<lparr>query_base_addr := query_base_addr rmi_fd,
                                                      ctrl_base_addr := ctrl_base_addr rmi_fd,
                                                      data_base_addr := data_base_addr rmi_fd\<rparr>\<rparr>\<rparr>)
      else Inr st)"

text \<open>The \<open>for\<close> loop over the addresses of the table: a failed read returns its error, an
  entry with function number zero ends the loop.\<close>

fun scan_pdt_loop ::
  "dsx_header \<Rightarrow> device \<Rightarrow> nat list \<Rightarrow> scan_state \<Rightarrow> int \<times> scan_state + scan_state" where
  "scan_pdt_loop h dev [] st = Inr st"
| "scan_pdt_loop h dev (addr # addrs) st =
     (let (retval, buf, l') = reg_read dev addr (sizeof_fn_desc h) (scan_log st);
          rmi_fd = fn_desc_of h buf;
          st0 = st\<lparr>scan_log := l'\<rparr>
      in if retval < 0 then Inl (retval, st0)
         else if fn_number rmi_fd \<noteq> 0 then
           (case scan_pdt_entry h rmi_fd st0 of
              Inl e \<Rightarrow> Inl e
            | Inr st1 \<Rightarrow>
                scan_pdt_loop h dev addrs
                  (st1\<lparr>intr_count := intr_count st1 + ucast (intr_src_count rmi_fd)\<rparr>))
         else Inr st0)"

definition fwu_scan_pdt ::
  "dsx_header \<Rightarrow> device \<Rightarrow> synaptics_rmi4_fwu_handle \<Rightarrow> bus_op list \<Rightarrow>
     int \<times> synaptics_rmi4_fwu_handle \<times> bus_op list" where
  "fwu_scan_pdt h dev s l =
     (case scan_pdt_loop h dev (pdt_addrs h)
             \<lparr>intr_count = 0, f01found = False, f34found = False, f35found = False,
              scan_fwu = s\<lparr>in_ub_mode := False\<rparr>, scan_log = l\<rparr> of
        Inl (retval, st) \<Rightarrow> (retval, scan_fwu st, scan_log st)
      | Inr st \<Rightarrow>
          if \<not> f01found st \<or> \<not> f34found st then
            (if \<not> f35found st then (- EINVAL, scan_fwu st, scan_log st)
             else
               (let s' = (scan_fwu st)\<lparr>in_ub_mode := True\<rparr>;
                    (ignored, l') = fwu_recovery_check_status h dev s' (scan_log st)
                in (0, s', l')))
          else (0, scan_fwu st, scan_log st))"

section \<open>Recovery: writing the image in chunks\<close>

text \<open>Modelled from the spec: \<open>secure_memcpy\<close> is defined in \<open>synaptics_dsx_i2c.h\<close>, which
  is not among the sources. By section 4.5 of the specification a chunk "may be shorter
  and is zero-padded": the copy puts \<open>count\<close> bytes of the source over the start of the
  destination and leaves the rest of it. By its arguments (destination and its size,
  source and its size, count) it copies nothing and returns an error when the count
  exceeds one of the sizes. Reading more bytes than the source buffer holds is undefined
  (\<open>None\<close>).\<close>

definition secure_memcpy ::
  "byte list \<Rightarrow> nat \<Rightarrow> byte list \<Rightarrow> nat \<Rightarrow> nat \<Rightarrow> (int \<times> byte list) option" where
  "secure_memcpy dest dest_size src src_size count =
     (if count > dest_size \<or> count > src_size then Some (- EINVAL, dest)
      else if count > length src then None
      else Some (0, take count src @ drop count dest))"

text \<open>The loop of \<open>fwu_recovery_write_chunk\<close>. \<open>chunk\<close>, \<open>chunk_total\<close> and \<open>bytes_written\<close>
  are \<open>unsigned short\<close>, \<open>chunk_spare\<close> and \<open>chunk_size\<close> are \<open>unsigned char\<close>; \<open>chunk_ptr\<close>
  is kept as the offset into the image. The buffer of 17 bytes holds the command in its
  last byte; its first 16 are cleared before each copy.\<close>

lemma chunk_counter_decreases:
  fixes chunk chunk_total :: u16
  assumes lt: "chunk < chunk_total"
  shows "unat chunk_total - unat (chunk + 1) < unat chunk_total - unat chunk"
proof -
  from lt have a: "unat chunk < unat chunk_total"
    by (simp add: word_less_nat_alt)
  have "unat chunk_total < 2 ^ 16"
    using unsigned_less [of chunk_total] by simp
  with a have "unat chunk + 1 < 2 ^ 16"
    by simp
  then have "unat (chunk + 1) = unat chunk + 1"
    by (simp add: unat_word_ariths)
  with a show ?thesis
    by simp
qed

function recovery_chunk_loop ::
  "device \<Rightarrow> nat \<Rightarrow> byte list \<Rightarrow> u32 \<Rightarrow> byte \<Rightarrow> u16 \<Rightarrow> u16 \<Rightarrow> nat \<Rightarrow> u16 \<Rightarrow>
     bus_op list \<Rightarrow> (int \<times> bus_op list) option" where
  "recovery_chunk_loop dev base image_bytes img_size chunk_spare chunk_total chunk chunk_ptr
       bytes_written l =
     (if chunk < chunk_total then
        (let chunk_size = (if chunk_spare \<noteq> 0 \<and> uint chunk = uint chunk_total - 1
                           then chunk_spare else word_of_nat F35_CHUNK_SIZE);
             buf = replicate F35_CHUNK_SIZE 0 @ [CMD_F35_WRITE_CHUNK]
         in case secure_memcpy buf (F35_CHUNK_SIZE + 1) (drop chunk_ptr image_bytes)
                   (unat (img_size - ucast bytes_written)) (unat chunk_size) of
              None \<Rightarrow> None
            | Some (ignored, buf') \<Rightarrow>
                (let (retval, l') = reg_write dev (base + F35_CHUNK_DATA_OFFSET) buf' l
                 in if retval < 0 then Some (retval, l')
                    else recovery_chunk_loop dev base image_bytes img_size chunk_spare chunk_total
                           (chunk + 1) (chunk_ptr + unat chunk_size)
                           (bytes_written + ucast chunk_size) l'))
      else Some (0, l))"
  by pat_completeness auto
termination
  by (relation "measure (\<lambda>(dev, base, image_bytes, img_size, chunk_spare, chunk_total, chunk,
                           chunk_ptr, bytes_written, l). unat chunk_total - unat chunk)")
     (auto simp: chunk_counter_decreases)

declare recovery_chunk_loop.simps [simp del]

text \<open>\<open>fwu_recovery_write_chunk\<close>. The image pointer is not null when the function is
  reached (its caller checks); \<open>None\<close> otherwise.\<close>

definition fwu_recovery_write_chunk ::
  "dsx_header \<Rightarrow> device \<Rightarrow> synaptics_rmi4_fwu_handle \<Rightarrow> bus_op list \<Rightarrow> (int \<times> bus_op list) option" where
  "fwu_recovery_write_chunk h dev s l =
     (case image_buf s of
        None \<Rightarrow> None
      | Some image_bytes \<Rightarrow>
          (let base = unat (ctrl_base_addr (f35_fd s));
               (retval, l1) = reg_write dev (base + F35_CHUNK_NUM_LSB_OFFSET) [0, 0] l
           in if retval < 0 then Some (retval, l1)
              else
                (let chunk_total = (ucast (image_size s div word_of_nat F35_CHUNK_SIZE) :: u16);
                     chunk_spare = (ucast (image_size s mod word_of_nat F35_CHUNK_SIZE) :: byte);
                     chunk_total = (if chunk_spare \<noteq> 0 then chunk_total + 1 else chunk_total)
                 in case recovery_chunk_loop dev base image_bytes (image_size s) chunk_spare
                           chunk_total 0 0 0 l1 of
                      None \<Rightarrow> None
                    | Some (retval, l2) \<Rightarrow>
                        if retval < 0 then Some (retval, l2)
                        else
                          (let (retval, l3) = fwu_recovery_check_status h dev s l2
                           in if retval < 0 then Some (retval, l3) else Some (0, l3)))))"

section \<open>The TDAT image format\<close>

text \<open>A read through a null pointer, or at an index behind the end of the buffer the
  pointer points into, is undefined in C. The model makes it a value, a \<open>fault\<close>, and
  every function that reads the image returns either a fault (\<open>Inl\<close>) or its result
  (\<open>Inr\<close>). A pointer is the bytes from it to the end of its buffer, \<open>None\<close> the null
  pointer.\<close>

datatype fault = Null_Dereference | Out_Of_Bounds

definition read_byte :: "byte list option \<Rightarrow> nat \<Rightarrow> fault + byte" where
  "read_byte p i =
     (case p of
        None \<Rightarrow> Inl Null_Dereference
      | Some bs \<Rightarrow> if i < length bs then Inr (bs ! i) else Inl Out_Of_Bounds)"

text \<open>A read of the \<open>n\<close> bytes at index \<open>i\<close>; no byte is read when \<open>n\<close> is zero.\<close>

definition read_bytes :: "byte list option \<Rightarrow> nat \<Rightarrow> nat \<Rightarrow> fault + byte list" where
  "read_bytes p i n =
     (if n = 0 then Inr []
      else
        (case p of
           None \<Rightarrow> Inl Null_Dereference
         | Some bs \<Rightarrow> if i + n \<le> length bs then Inr (take n (drop i bs)) else Inl Out_Of_Bounds))"

text \<open>\<open>fwu_tdat_image_format\<close>.\<close>

definition fwu_tdat_image_format :: "byte list option \<Rightarrow> fault + bool" where
  "fwu_tdat_image_format fw_image =
     (case read_byte fw_image 0 of
        Inl f \<Rightarrow> Inl f
      | Inr b \<Rightarrow> Inr (b = 0x31))"

text \<open>The length of the record at \<open>offset\<close>:
  \<open>(data[offset+3] << 16) | (data[offset+2] << 8) | data[offset+1]\<close>. The indices are
  \<open>unsigned int\<close> and wrap at \<open>2^32\<close>.\<close>

definition tdat_length :: "byte list option \<Rightarrow> u32 \<Rightarrow> fault + u32" where
  "tdat_length data offset =
     (case read_byte data (unat (offset + 3)) of
        Inl f \<Rightarrow> Inl f
      | Inr b3 \<Rightarrow>
          (case read_byte data (unat (offset + 2)) of
             Inl f \<Rightarrow> Inl f
           | Inr b2 \<Rightarrow>
               (case read_byte data (unat (offset + 1)) of
                  Inl f \<Rightarrow> Inl f
                | Inr b1 \<Rightarrow>
                    Inr (push_bit 16 (ucast b3) OR push_bit 8 (ucast b2) OR ucast b1))))"

text \<open>The first loop of \<open>fwu_parse_tdat_image\<close>, from \<open>offset\<close>. The length of a record is
  read before anything is tested, so a record whose header runs over the end of the
  image is read behind the buffer. All the arithmetic is \<open>unsigned int\<close> and wraps at
  \<open>2^32\<close>, so the loop need not end on every input: the result is \<open>None\<close> when it does
  not. Otherwise it is a fault, or \<open>Inr (Inl retval)\<close> for the \<open>return -EINVAL\<close> of the
  overflow test (whose message prints \<open>data[offset]\<close>), or \<open>Inr (Inr offset)\<close> with the
  offset at which the loop ended.\<close>

partial_function (option) tdat_check_loop ::
  "byte list option \<Rightarrow> u32 \<Rightarrow> u32 \<Rightarrow> (fault + int + u32) option" where
  "tdat_check_loop data fw_size offset =
     (if offset < fw_size then
        (case tdat_length data offset of
           Inl f \<Rightarrow> Some (Inl f)
         | Inr length' \<Rightarrow>
             if offset + length' + 4 > fw_size then
               (case read_byte data (unat offset) of
                  Inl f \<Rightarrow> Some (Inl f)
                | Inr b \<Rightarrow> Some (Inr (Inl (- EINVAL))))
             else tdat_check_loop data fw_size (offset + length' + 4))
      else Some (Inr (Inr offset)))"

text \<open>\<open>fwu_tdat_config_set\<close>: the sub-records of a configuration record, each with two
  bytes of id, a byte that is not read, two bytes of length and the payload. A sub-record
  with id 1 sets the pointer and the size given through \<open>image\<close> and \<open>image_size\<close>, here
  the two fields of the \<open>block_data\<close> \<open>target\<close>. The offset is \<open>unsigned int\<close> and wraps,
  so this loop need not end either (\<open>None\<close>).\<close>

partial_function (option) fwu_tdat_config_set_loop ::
  "byte list option \<Rightarrow> u32 \<Rightarrow> u32 \<Rightarrow> block_data \<Rightarrow> (fault + block_data) option" where
  "fwu_tdat_config_set_loop data size' offset target =
     (if offset < size' then
        (case read_byte data (unat (offset + 1)) of
           Inl f \<Rightarrow> Some (Inl f)
         | Inr id_hi \<Rightarrow>
        (case read_byte data (unat offset) of
           Inl f \<Rightarrow> Some (Inl f)
         | Inr id_lo \<Rightarrow>
        (case read_byte data (unat (offset + 4)) of
           Inl f \<Rightarrow> Some (Inl f)
         | Inr length_hi \<Rightarrow>
        (case read_byte data (unat (offset + 3)) of
           Inl f \<Rightarrow> Some (Inl f)
         | Inr length_lo \<Rightarrow>
             (let id' = (push_bit 8 (ucast id_hi) OR ucast id_lo :: u16);
                  length' = (push_bit 8 (ucast length_hi) OR ucast length_lo :: u32);
                  target' = (if id' = 0x0001
                             then \<lparr>bd_size = length',
                                   bd_data = map_option (drop (unat (offset + 5))) data\<rparr>
                             else target)
              in fwu_tdat_config_set_loop data size' (offset + length' + 5) target')))))
      else Some (Inr target))"

definition fwu_tdat_config_set ::
  "byte list option \<Rightarrow> u32 \<Rightarrow> block_data \<Rightarrow> (fault + block_data) option" where
  "fwu_tdat_config_set data size' target = fwu_tdat_config_set_loop data size' 0 target"

text \<open>\<open>fwu_tdat_section_offset\<close>: the first byte behind the pointer says how many bytes
  to skip after it; the pointer moves on and the size shrinks (it wraps when the section
  is shorter than what is skipped).\<close>

definition fwu_tdat_section_offset :: "block_data \<Rightarrow> fault + block_data" where
  "fwu_tdat_section_offset target =
     (case read_byte (bd_data target) 0 of
        Inl f \<Rightarrow> Inl f
      | Inr b \<Rightarrow>
          (let offset = (ucast b + 1 :: u32)
           in Inr \<lparr>bd_size = bd_size target - offset,
                   bd_data = map_option (drop (unat offset)) (bd_data target)\<rparr>))"

text \<open>The \<open>switch\<close> of the second loop of \<open>fwu_parse_tdat_image\<close> for a record with the id
  \<open>rid\<close>, the length \<open>length'\<close> and the payload at \<open>section\<close>. A configuration record
  (id 1) gives the UI configuration; when none of its sub-records has id 1 the pointer is
  left as it was, and \<open>fwu_tdat_section_offset\<close> reads through it all the same. A
  firmware record (id 2) gives the build id, which \<open>batohui\<close> reads from
  \<open>SYNAPTICS_RMI4_BUILD_ID_SIZE\<close> bytes at \<open>section[1]\<close>, and the UI firmware. Records
  with another id are skipped.\<close>

definition tdat_extract_record ::
  "dsx_header \<Rightarrow> byte list option \<Rightarrow> byte \<Rightarrow> u32 \<Rightarrow> image_metadata \<Rightarrow>
     (fault + image_metadata) option" where
  "tdat_extract_record h section rid length' im =
     (if rid = 1 then
        (case fwu_tdat_config_set section length' (ui_config im) of
           None \<Rightarrow> None
         | Some (Inl f) \<Rightarrow> Some (Inl f)
         | Some (Inr cfg) \<Rightarrow>
             (case fwu_tdat_section_offset cfg of
                Inl f \<Rightarrow> Some (Inl f)
              | Inr cfg' \<Rightarrow> Some (Inr (im\<lparr>ui_config := cfg'\<rparr>))))
      else if rid = 2 then
        (case read_bytes section 1 (SYNAPTICS_RMI4_BUILD_ID_SIZE h) of
           Inl f \<Rightarrow> Some (Inl f)
         | Inr bs \<Rightarrow>
             (case fwu_tdat_section_offset \<lparr>bd_size = length', bd_data = section\<rparr> of
                Inl f \<Rightarrow> Some (Inl f)
              | Inr fw \<Rightarrow>
                  Some (Inr (im\<lparr>contains_firmware_id := True, firmware_id := batohui h bs,
                                 ui_firmware := fw\<rparr>))))
      else Some (Inr im))"

text \<open>The second loop of \<open>fwu_parse_tdat_image\<close>, from \<open>offset\<close>: the id and the length of
  the record are read, \<open>section\<close> is \<open>&data[offset+4]\<close>, and the record is extracted.\<close>

partial_function (option) tdat_extract_loop ::
  "dsx_header \<Rightarrow> byte list option \<Rightarrow> u32 \<Rightarrow> u32 \<Rightarrow> image_metadata \<Rightarrow>
     (fault + image_metadata) option" where
  "tdat_extract_loop h data fw_size offset im =
     (if offset < fw_size then
        (case read_byte data (unat offset) of
           Inl f \<Rightarrow> Some (Inl f)
         | Inr rid \<Rightarrow>
             (case tdat_length data offset of
                Inl f \<Rightarrow> Some (Inl f)
              | Inr length' \<Rightarrow>
                  (case tdat_extract_record h (map_option (drop (unat (offset + 4))) data)
                          rid length' im of
                     None \<Rightarrow> None
                   | Some (Inl f) \<Rightarrow> Some (Inl f)
                   | Some (Inr im') \<Rightarrow>
                       tdat_extract_loop h data fw_size (offset + length' + 4) im')))
      else Some (Inr im))"

text \<open>\<open>fwu_parse_tdat_image\<close>: the flags are cleared, the first loop and the test after it
  validate the records, and only then the second loop extracts them. The result is
  \<open>None\<close> when a loop does not end, a fault, or the return value and the handle.\<close>

definition tdat_clear_flags :: "synaptics_rmi4_fwu_handle \<Rightarrow> synaptics_rmi4_fwu_handle" where
  "tdat_clear_flags s =
     s\<lparr>img := (img s)\<lparr>contains_firmware_id := False, contains_bootloader := False,
                       contains_disp_config := False, contains_guest_code := False,
                       contains_flash_config := False,
                       lockdown := (lockdown (img s))\<lparr>bd_data := None\<rparr>\<rparr>\<rparr>"

definition fwu_parse_tdat_image ::
  "dsx_header \<Rightarrow> synaptics_rmi4_fwu_handle \<Rightarrow>
     (fault + int \<times> synaptics_rmi4_fwu_handle) option" where
  "fwu_parse_tdat_image h s =
     (let data = image_buf s;
          fw_size = image_size s;
          s0 = tdat_clear_flags s
      in case tdat_check_loop data fw_size 1 of
           None \<Rightarrow> None
         | Some (Inl f) \<Rightarrow> Some (Inl f)
         | Some (Inr (Inl retval)) \<Rightarrow> Some (Inr (retval, s0))
         | Some (Inr (Inr offset)) \<Rightarrow>
             if offset \<noteq> fw_size then Some (Inr (- EINVAL, s0))
             else
               (case tdat_extract_loop h data fw_size 1 (img s0) of
                  None \<Rightarrow> None
                | Some (Inl f) \<Rightarrow> Some (Inl f)
                | Some (Inr im) \<Rightarrow> Some (Inr (0, s0\<lparr>img := im\<rparr>))))"

text \<open>What it means for records to tile a buffer exactly: the buffer is empty, or it
  starts with a record (one byte of id, three bytes of length, lowest first, and as many
  bytes of payload as the length says) that lies in the buffer, and the rest is tiled.\<close>

definition le24 :: "byte \<Rightarrow> byte \<Rightarrow> byte \<Rightarrow> nat" where
  "le24 b0 b1 b2 = unat b0 + 256 * unat b1 + 65536 * unat b2"

fun tdat_tiles :: "byte list \<Rightarrow> bool" where
  "tdat_tiles [] = True"
| "tdat_tiles (rid # b0 # b1 # b2 # rest) =
     (le24 b0 b1 b2 \<le> length rest \<and> tdat_tiles (drop (le24 b0 b1 b2) rest))"
| "tdat_tiles _ = False"

text \<open>The same said with the records themselves: a record with its id and its payload,
  laid out as the format prescribes.\<close>

definition tdat_record :: "byte \<times> byte list \<Rightarrow> byte list" where
  "tdat_record r =
     fst r # word_of_nat (length (snd r)) # word_of_nat (length (snd r) div 256) #
       word_of_nat (length (snd r) div 65536) # snd r"

text \<open>The three ways a walk over a record stream ends: the records tile the buffer; a
  record's payload runs over the end of the buffer; or the buffer ends inside the four
  bytes of a record's header.\<close>

datatype tiling = Tiled | Payload_Overrun | Header_Cut

fun tdat_walk :: "byte list \<Rightarrow> tiling" where
  "tdat_walk [] = Tiled"
| "tdat_walk (rid # b0 # b1 # b2 # rest) =
     (if le24 b0 b1 b2 \<le> length rest then tdat_walk (drop (le24 b0 b1 b2) rest)
      else Payload_Overrun)"
| "tdat_walk _ = Header_Cut"

section \<open>The exported entry point\<close>

text \<open>\<open>synaptics_fw_updater\<close>. The global \<open>fwu\<close> is a pointer that may be null.
  \<open>fwu_start_reflash\<close>, with everything it does to the handle and on the bus, is the
  parameter \<open>start_reflash\<close>.\<close>

definition synaptics_fw_updater ::
  "(synaptics_rmi4_fwu_handle \<Rightarrow> bus_op list \<Rightarrow> int \<times> synaptics_rmi4_fwu_handle \<times> bus_op list) \<Rightarrow>
     byte list option \<Rightarrow> synaptics_rmi4_fwu_handle option \<Rightarrow> bus_op list \<Rightarrow>
     int \<times> synaptics_rmi4_fwu_handle option \<times> bus_op list" where
  "synaptics_fw_updater start_reflash fw_data fwu l =
     (case fwu of
        None \<Rightarrow> (- ENODEV, None, l)
      | Some s \<Rightarrow>
          if \<not> initialized s then (- ENODEV, Some s, l)
          else if in_ub_mode s then (- ENODEV, Some s, l)
          else
            (let (retval, s', l') = start_reflash (s\<lparr>image_buf := fw_data\<rparr>) l
             in (retval, Some (s'\<lparr>image_buf := None\<rparr>), l')))"

section \<open>What a run leaves on the bus\<close>

text \<open>The register writes among the calls of a log, in order.\<close>

fun writes_of :: "bus_op list \<Rightarrow> (nat \<times> byte list) list" where
  "writes_of [] = []"
| "writes_of (Reg_Write addr bs # ops) = (addr, bs) # writes_of ops"
| "writes_of (op # ops) = writes_of ops"

text \<open>The register writes by which \<open>fwu_write_f34_command\<close> issues an erase command when
  the transport succeeds: from version 7 on the single transaction of eight bytes at the
  partition-id register; before, the bootloader id at the payload register and then the
  command byte at the command register.\<close>

definition command_writes :: "synaptics_rmi4_fwu_handle \<Rightarrow> flash_command \<Rightarrow> (nat \<times> byte list) list" where
  "command_writes s cmd =
     (if bl_version s \<ge> BL_V7 then
        [(unat (data_base_addr (f34_fd s)) + unat (off_partition_id (off s)),
          data_1_5_bytes (fst (single_transaction_fields cmd)) (snd (single_transaction_fields cmd))
            (bootloader_id s))]
      else
        [(unat (data_base_addr (f34_fd s)) + unat (off_payload (off s)),
          [fst (bootloader_id s), snd (bootloader_id s)]),
         (unat (data_base_addr (f34_fd s)) + unat (off_flash_cmd (off s)),
          [the (v5v6_command_of cmd)])])"

text \<open>The erases that follow the erasure of firmware and UI configuration: the display
  configuration when the device has one, the guest code when the partition table is new
  and the device has guest code.\<close>

definition extra_erase_writes :: "synaptics_rmi4_fwu_handle \<Rightarrow> (nat \<times> byte list) list" where
  "extra_erase_writes s =
     (if has_disp_config s then command_writes s CMD_ERASE_DISP_CONFIG else []) @
     (if new_partition_table s \<and> has_guest_code s then command_writes s CMD_ERASE_GUEST_CODE else [])"

text \<open>The fields of the handle that decide which commands are sent and how; the commands
  and the waits do not change them.\<close>

definition same_setup :: "synaptics_rmi4_fwu_handle \<Rightarrow> synaptics_rmi4_fwu_handle \<Rightarrow> bool" where
  "same_setup s s' =
     (bl_version s' = bl_version s \<and> bootloader_id s' = bootloader_id s \<and> off s' = off s \<and>
      f34_fd s' = f34_fd s \<and> has_disp_config s' = has_disp_config s \<and>
      has_guest_code s' = has_guest_code s \<and> new_partition_table s' = new_partition_table s)"

fun erase_command :: "flash_command \<Rightarrow> bool" where
  "erase_command CMD_ERASE_ALL = True"
| "erase_command CMD_ERASE_UI_FIRMWARE = True"
| "erase_command CMD_ERASE_UI_CONFIG = True"
| "erase_command CMD_ERASE_BL_CONFIG = True"
| "erase_command CMD_ERASE_DISP_CONFIG = True"
| "erase_command CMD_ERASE_GUEST_CODE = True"
| "erase_command _ = False"

text \<open>The descriptor table as a scan started on the log \<open>l\<close> is answered: the return value
  and the entry of the read at each address of the table, every read made on the log the
  earlier ones have left; the function numbers of the entries before the first zero;
  whether a function is among them; and whether all the reads succeed.\<close>

fun scan_reads ::
  "dsx_header \<Rightarrow> device \<Rightarrow> nat list \<Rightarrow> bus_op list \<Rightarrow> (int \<times> synaptics_rmi4_fn_desc) list" where
  "scan_reads h dev [] l = []"
| "scan_reads h dev (addr # addrs) l =
     (fst (reg_read dev addr (sizeof_fn_desc h) l),
      fn_desc_of h (fst (snd (reg_read dev addr (sizeof_fn_desc h) l)))) #
     scan_reads h dev addrs (snd (snd (reg_read dev addr (sizeof_fn_desc h) l)))"

definition functions_upto_zero :: "(int \<times> synaptics_rmi4_fn_desc) list \<Rightarrow> byte list" where
  "functions_upto_zero reads = takeWhile (\<lambda>fn. fn \<noteq> 0) (map (\<lambda>r. fn_number (snd r)) reads)"

definition function_in_table ::
  "dsx_header \<Rightarrow> device \<Rightarrow> bus_op list \<Rightarrow> byte \<Rightarrow> bool" where
  "function_in_table h dev l fn =
     (fn \<in> set (functions_upto_zero (scan_reads h dev (pdt_addrs h) l)))"

definition table_reads_succeed :: "dsx_header \<Rightarrow> device \<Rightarrow> bus_op list \<Rightarrow> bool" where
  "table_reads_succeed h dev l = list_all (\<lambda>r. 0 \<le> fst r) (scan_reads h dev (pdt_addrs h) l)"

text \<open>The chunks of a recovery image: consecutive pieces of \<open>F35_CHUNK_SIZE\<close> bytes, the
  last one shorter when the length is not a multiple; a chunk padded with zeros to the
  full size; and the register write that transmits a chunk: the padded chunk followed by
  the write-chunk command, at the chunk-data register of F35.\<close>

definition recovery_chunks :: "byte list \<Rightarrow> byte list list" where
  "recovery_chunks image_bytes =
     map (\<lambda>k. take F35_CHUNK_SIZE (drop (F35_CHUNK_SIZE * k) image_bytes))
       [0 ..< (length image_bytes + F35_CHUNK_SIZE - 1) div F35_CHUNK_SIZE]"

definition zero_pad :: "byte list \<Rightarrow> byte list" where
  "zero_pad c = c @ replicate (F35_CHUNK_SIZE - length c) 0"

definition chunk_write :: "synaptics_rmi4_fwu_handle \<Rightarrow> byte list \<Rightarrow> nat \<times> byte list" where
  "chunk_write s c =
     (unat (ctrl_base_addr (f35_fd s)) + F35_CHUNK_DATA_OFFSET, zero_pad c @ [CMD_F35_WRITE_CHUNK])"

section \<open>Example inputs\<close>

text \<open>A header for the examples: the masks keep the low bits their names say, the
  functions are numbered \<open>$01\<close>, \<open>$34\<close> and \<open>$35\<close>, the table has five entries of six bytes
  below address \<open>0xe9\<close>, and an entry is four base addresses, a byte with the interrupt
  count in bits 0-2 and the version in bits 5-6, and the function number. A build id has
  three bytes, which \<open>batohui\<close> reads lowest first.\<close>

definition example_fn_desc_of :: "byte list \<Rightarrow> synaptics_rmi4_fn_desc" where
  "example_fn_desc_of bs =
     \<lparr>query_base_addr = bs ! 0, cmd_base_addr = bs ! 1, ctrl_base_addr = bs ! 2,
      data_base_addr = bs ! 3, intr_src_count = ucast (bs ! 4 AND 7),
      fn_version = drop_bit 5 (bs ! 4) AND 3, fn_number = bs ! 5\<rparr>"

definition example_header :: dsx_header where
  "example_header =
     \<lparr>MASK_3BIT = 0x07, MASK_4BIT = 0x0f, MASK_5BIT = 0x1f, MASK_6BIT = 0x3f,
      MASK_7BIT = 0x7f, SYNAPTICS_RMI4_F01 = 0x01, SYNAPTICS_RMI4_F34 = 0x34,
      SYNAPTICS_RMI4_F35 = 0x35, SYNAPTICS_RMI4_BUILD_ID_SIZE = 3,
      batohui = (\<lambda>bs. ucast (bs ! 0) + ucast (bs ! 1) * 0x100 + ucast (bs ! 2) * 0x10000),
      pdt_addrs = [0xe9, 0xe3, 0xdd, 0xd7, 0xd1],
      sizeof_fn_desc = 6, fn_desc_of = example_fn_desc_of\<rparr>"

text \<open>A handle after a scan that found F01 at data base \<open>0x20\<close> and F34 at data base
  \<open>0x10\<close>, with the register offsets of protocol version 7 and 8.\<close>

definition example_v7_handle :: synaptics_rmi4_fwu_handle where
  "example_v7_handle =
     zero_handle\<lparr>bl_version := BL_V7, initialized := True,
       off := zero_register_offset\<lparr>off_flash_status := 0, off_partition_id := 1,
                off_block_number := 2, off_transfer_length := 3, off_flash_cmd := 4,
                off_payload := 5\<rparr>,
       f34_fd := zero_fn_desc\<lparr>data_base_addr := 0x10, fn_number := 0x34\<rparr>,
       f01_data_base_addr := 0x20\<rparr>"

text \<open>A device on which a command never completes: every wait on the semaphore times
  out (\<open>down_timeout\<close> returns \<open>-ETIME\<close>, \<open>-62\<close>), the interrupt status register reads
  zero, the flash status reads \<open>0x83\<close> (bootloader mode, status 3) and the command register
  still holds the erase command.\<close>

fun stuck_device :: device where
  "stuck_device l (Down_Timeout ms) = (- 62, [])"
| "stuck_device l (Reg_Read addr len) =
     (if addr = 0x21 then (1, [0x00])
      else if addr = 0x10 then (1, [0x83])
      else (8, [0x07, 0, 0, 0, 0, 0x04, 0, 0]))"
| "stuck_device l (Reg_Write addr bs) = (0, [])"

text \<open>A device on which everything succeeds at once: the semaphore is taken, reads
  return zeros, writes succeed.\<close>

fun idle_device :: device where
  "idle_device l (Down_Timeout ms) = (0, [])"
| "idle_device l (Reg_Read addr len) = (0, [])"
| "idle_device l (Reg_Write addr bs) = (0, [])"

text \<open>Two descriptor tables: one whose first entry is F35 and whose second entry ends
  the table, and an empty one. The device answers every read from the table.\<close>

definition microloader_table :: "nat \<Rightarrow> int \<times> byte list" where
  "microloader_table addr =
     (if addr = 0xe9 then (6, [0x00, 0x00, 0x04, 0x00, 0x00, 0x35])
      else (6, [0, 0, 0, 0, 0, 0]))"

definition empty_table :: "nat \<Rightarrow> int \<times> byte list" where
  "empty_table addr = (6, [0, 0, 0, 0, 0, 0])"

fun table_device :: "(nat \<Rightarrow> int \<times> byte list) \<Rightarrow> device" where
  "table_device table l (Reg_Read addr len) = table addr"
| "table_device table l op = (0, [])"

text \<open>The rows of a go/no-go decision table: a handle of a device with protocol version 6
  (a configuration id of four bytes) that is neither forced to update nor in bootloader
  mode, with the three bytes of its build id as the device reports them, and an image
  with a build id and a UI configuration; and a device whose configuration id reads
  \<open>[1,2,3,4]\<close>.\<close>

definition decision_table_handle ::
  "byte \<times> byte \<times> byte \<Rightarrow> u32 \<Rightarrow> byte list \<Rightarrow> synaptics_rmi4_fwu_handle" where
  "decision_table_handle device_build_id image_build_id image_config_id =
     zero_handle\<lparr>bl_version := BL_V6, build_id := device_build_id,
       img := zero_image_metadata\<lparr>contains_firmware_id := True, firmware_id := image_build_id,
                ui_config := \<lparr>bd_size = 4, bd_data = Some image_config_id\<rparr>\<rparr>\<rparr>"

fun decision_table_device :: device where
  "decision_table_device l (Reg_Read addr len) = (0, [1, 2, 3, 4])"
| "decision_table_device l op = (0, [])"







text \<open>TDAT images: one whose record stream ends inside the header of its first record;
  one whose records tile it, a firmware record and an empty configuration record; and one
  with a firmware record (a header of four bytes with the build id \<open>0x1000\<close>, two bytes of
  firmware) and a configuration record with one sub-record of id 1.\<close>

definition cut_header_image :: "byte list" where
  "cut_header_image = [0x31, 0x07, 0x00]"

definition null_config_image :: "byte list" where
  "null_config_image = [0x31, 0x02, 0x03, 0, 0, 0xaa, 0xbb, 0xcc, 0x01, 0, 0, 0]"

definition complete_image :: "byte list" where
  "complete_image =
     [0x31,
      0x02, 0x06, 0, 0, 0x03, 0x00, 0x10, 0x00, 0xf1, 0xf2,
      0x01, 0x08, 0, 0, 0x01, 0x00, 0x00, 0x03, 0x00, 0x00, 0xc1, 0xc2]"

section \<open>Properties\<close>

lemmas bl_defs = BL_V5_def BL_V6_def BL_V7_def BL_V8_def

lemmas zero_defs = zero_block_data_def zero_block_count_def zero_physical_address_def
  zero_register_offset_def zero_fn_desc_def zero_image_metadata_def zero_handle_def

subsection \<open>The go/no-go decision\<close>

text \<open>The comparison loop decides by the first index at which the two identifiers
  differ: it is the lexicographic order on the first \<open>n\<close> bytes.\<close>

lemma config_id_loop_lexord:
  assumes "n \<le> length bs" and "n \<le> length c" and "ii \<le> n"
  shows "config_id_loop ii n (Some bs) c =
     Some (if (drop ii (take n c), drop ii (take n bs)) \<in> lexord {(a, b). a < b}
           then UI_CONFIG else NONE)"
  using assms
proof (induction "n - ii" arbitrary: ii)
  case 0
  then show ?case by (subst config_id_loop.simps) simp
next
  case (Suc k)
  from Suc.hyps(2) have lt: "ii < n" by simp
  from lt Suc.prems have c: "drop ii (take n c) = c ! ii # drop (Suc ii) (take n c)"
    using Cons_nth_drop_Suc [of ii "take n c", symmetric] by simp
  from lt Suc.prems have b: "drop ii (take n bs) = bs ! ii # drop (Suc ii) (take n bs)"
    using Cons_nth_drop_Suc [of ii "take n bs", symmetric] by simp
  from Suc.hyps(2) lt have "k = n - Suc ii" and "Suc ii \<le> n" by simp_all
  with Suc.prems have IH: "config_id_loop (Suc ii) n (Some bs) c =
     Some (if (drop (Suc ii) (take n c), drop (Suc ii) (take n bs)) \<in> lexord {(a, b). a < b}
           then UI_CONFIG else NONE)"
    by (intro Suc.hyps(1)) simp_all
  have inb: "ii < length bs" "ii < length c"
    using lt Suc.prems by simp_all
  have "config_id_loop ii n (Some bs) c =
      (if bs ! ii > c ! ii then Some UI_CONFIG
       else if bs ! ii < c ! ii then Some NONE
       else config_id_loop (Suc ii) n (Some bs) c)"
    using lt inb by (subst config_id_loop.simps) simp
  also have "\<dots> = Some (if (drop ii (take n c), drop ii (take n bs)) \<in> lexord {(a, b). a < b}
           then UI_CONFIG else NONE)"
    unfolding IH c b by auto
  finally show ?case .
qed

text \<open>The decision in terms of the two identifiers the code compares. When the update is
  not forced, the device is not in bootloader mode and the image declares a build
  identifier: if it differs from the device identifier that \<open>fwu_get_device_firmware_id\<close>
  computes, the decision is the full update; if it is equal, the first \<open>config_id_size\<close>
  bytes of the image's UI configuration are compared lexicographically, as unsigned bytes,
  with the configuration identifier read from the device: strictly greater gives the
  configuration-only update, equal or less gives no update.\<close>

lemma go_nogo_by_identifiers:
  assumes "\<not> force_update s" and "\<not> in_bl_mode s" and "contains_firmware_id (img s)"
  shows "(firmware_id (img s) \<noteq> fwu_get_device_firmware_id s \<longrightarrow>
            fst (fwu_go_nogo dev s l) = Some UI_FIRMWARE) \<and>
         (firmware_id (img s) = fwu_get_device_firmware_id s \<longrightarrow>
            reg_read dev (unat (ctrl_base_addr (f34_fd s))) (config_id_size s) l =
              (rv, device_config, l') \<longrightarrow> 0 \<le> rv \<longrightarrow>
            bd_data (ui_config (img s)) = Some image_config \<longrightarrow>
            config_id_size s \<le> length image_config \<longrightarrow>
            fst (fwu_go_nogo dev s l) =
              Some (if (device_config, take (config_id_size s) image_config)
                         \<in> lexord {(a, b). a < b}
                    then UI_CONFIG else NONE))"
proof (intro conjI impI)
  assume "firmware_id (img s) \<noteq> fwu_get_device_firmware_id s"
  with assms show "fst (fwu_go_nogo dev s l) = Some UI_FIRMWARE"
    by (simp add: fwu_go_nogo_def fwu_get_image_firmware_id_def)
next
  let ?n = "config_id_size s"
  assume same: "firmware_id (img s) = fwu_get_device_firmware_id s"
    and rd: "reg_read dev (unat (ctrl_base_addr (f34_fd s))) ?n l = (rv, device_config, l')"
    and ok: "0 \<le> rv"
    and cfg: "bd_data (ui_config (img s)) = Some image_config"
    and len: "?n \<le> length image_config"
  from rd have dlen: "length device_config = ?n"
    by (auto simp: reg_read_def)
  let ?s' = "s\<lparr>config_id := device_config @ drop ?n (config_id s)\<rparr>"
  from rd ok have get: "fwu_get_device_config_id dev s l = (0, ?s', l')"
    by (simp add: fwu_get_device_config_id_def)
  have size': "config_id_size ?s' = ?n"
    by (simp add: config_id_size_def)
  have "fst (fwu_go_nogo dev s l) =
          config_id_loop 0 ?n (Some image_config) (device_config @ drop ?n (config_id s))"
    using assms same get cfg size'
    by (simp add: fwu_go_nogo_def fwu_get_image_firmware_id_def)
  also have "\<dots> = Some (if (drop 0 (take ?n (device_config @ drop ?n (config_id s))),
                             drop 0 (take ?n image_config)) \<in> lexord {(a, b). a < b}
                        then UI_CONFIG else NONE)"
    using len dlen by (intro config_id_loop_lexord) simp_all
  finally show "fst (fwu_go_nogo dev s l) =
      Some (if (device_config, take ?n image_config) \<in> lexord {(a, b). a < b}
            then UI_CONFIG else NONE)"
    using dlen by simp
qed

text \<open>The device identifier is not the device's build id: the three bytes are stored
  one byte too high, so the identifier is 256 times the number they make, lowest byte
  first. Its lowest byte is zero, and an image whose build identifier has a lowest byte
  that is not zero is never found equal to any device: the decision is always the full
  update.\<close>

lemma unat_ucast_8_32:
  fixes b :: byte
  shows "unat (ucast b :: u32) = unat b"
  by (simp add: unsigned_ucast_eq take_bit_nat_eq_self_iff
      order_less_trans [OF unsigned_less [of b, simplified]])

lemma device_firmware_id_shifted:
  assumes "build_id s = (b0, b1, b2)"
  shows "unat (fwu_get_device_firmware_id s) = 256 * (unat b0 + 256 * unat b1 + 65536 * unat b2)"
proof -
  have l: "unat b0 < 256" "unat b1 < 256" "unat b2 < 256"
    using unsigned_less [of b0] unsigned_less [of b1] unsigned_less [of b2] by simp_all
  have "unat (fwu_get_device_firmware_id s) =
      (unat b0 * 256 + unat b1 * 65536 + unat b2 * 16777216) mod 4294967296"
    using assms
    by (simp add: fwu_get_device_firmware_id_def le_to_uint_def unat_word_ariths
        unat_ucast_8_32 mod_simps)
  also have "\<dots> = unat b0 * 256 + unat b1 * 65536 + unat b2 * 16777216"
    using l by simp
  finally show ?thesis
    by simp
qed

lemma go_nogo_low_byte:
  assumes "\<not> force_update s" and "\<not> in_bl_mode s" and "contains_firmware_id (img s)"
    and "unat (firmware_id (img s)) mod 256 \<noteq> 0"
  shows "fst (fwu_go_nogo dev s l) = Some UI_FIRMWARE"
proof -
  obtain b0 b1 b2 where b: "build_id s = (b0, b1, b2)"
    by (cases "build_id s") auto
  from device_firmware_id_shifted [OF b] have "unat (fwu_get_device_firmware_id s) mod 256 = 0"
    by simp
  with assms(4) have "firmware_id (img s) \<noteq> fwu_get_device_firmware_id s"
    by auto
  with assms(1-3) show ?thesis
    by (simp add: fwu_go_nogo_def fwu_get_image_firmware_id_def)
qed

text \<open>
  Claim C1 (a defect of the code). The first row of the decision table: the device's
  build id is \<open>0x1000\<close> (the bytes \<open>00 10 00\<close>, in either byte order), the image's build id
  is \<open>0x1000\<close>, the device's configuration id is \<open>[1,2,3,4]\<close> and the image's is
  \<open>[1,2,3,5]\<close>; the update is not forced and the device is not in bootloader mode. The
  build identifiers are equal and the decision should be the configuration-only update.
  \<open>fwu_get_device_firmware_id\<close> makes \<open>0x100000\<close> of the device's build id, and the
  decision is the full update, taken without reading the device's configuration id.
\<close>

theorem go_nogo_equal_build_ids_full_update:
  "fwu_get_device_firmware_id (decision_table_handle (0x00, 0x10, 0x00) 0x1000 [1, 2, 3, 5]) =
     0x100000 \<and>
   fwu_go_nogo decision_table_device
     (decision_table_handle (0x00, 0x10, 0x00) 0x1000 [1, 2, 3, 5]) [] =
     (Some UI_FIRMWARE, decision_table_handle (0x00, 0x10, 0x00) 0x1000 [1, 2, 3, 5], [])"
  by (simp add: fwu_go_nogo_def fwu_get_device_firmware_id_def fwu_get_image_firmware_id_def
      le_to_uint_def decision_table_handle_def zero_defs)

text \<open>
  Claim C9. When the update is not forced, the device is not in bootloader mode and the
  image carries no build identifier, the decision is no update; the handle is left as it
  was and nothing is read from or written to the device.
\<close>

theorem go_nogo_without_image_build_id:
  assumes "\<not> force_update s" and "\<not> in_bl_mode s" and "\<not> contains_firmware_id (img s)"
  shows "fwu_go_nogo dev s l = (Some NONE, s, l)"
  using assms by (simp add: fwu_go_nogo_def fwu_get_image_firmware_id_def)

theorem go_nogo_without_image_build_id_witness:
  "\<not> force_update zero_handle \<and> \<not> in_bl_mode zero_handle \<and>
   \<not> contains_firmware_id (img zero_handle) \<and>
   fwu_go_nogo (\<lambda>l op. (0, [])) zero_handle [] = (Some NONE, zero_handle, [])"
proof -
  have h: "\<not> force_update zero_handle" "\<not> in_bl_mode zero_handle"
    "\<not> contains_firmware_id (img zero_handle)"
    by (simp_all add: zero_defs)
  from h go_nogo_without_image_build_id [OF h, of "\<lambda>l op. (0, [])" "[]"]
  show ?thesis by simp
qed

subsection \<open>Size validation\<close>

lemma unat_ucast_16_32:
  fixes b :: u16
  shows "unat (ucast b :: u32) = unat b"
  by (simp add: unsigned_ucast_eq take_bit_nat_eq_self_iff
      order_less_trans [OF unsigned_less [of b, simplified]])

lemma check_quotient_nat:
  fixes a :: u32 and b c :: u16
  shows "((ucast (a div ucast b) :: u16) = c) = (unat a div unat b mod 65536 = unat c)"
proof -
  have "unat (ucast (a div ucast b) :: u16) = unat (a div ucast b) mod 65536"
    by (simp add: unsigned_ucast_eq take_bit_eq_mod)
  also have "unat (a div ucast b) = unat a div unat b"
    by (simp add: unat_div unat_ucast_16_32)
  finally show ?thesis
    by (simp add: word_unat_eq_iff)
qed

text \<open>
  Claim C2, as stated, fails: with 100 blocks of 16 bytes a firmware block of 1601 bytes
  passes the check.
\<close>

theorem check_ui_firmware_size_1601_counterexample:
  "fwu_check_ui_firmware_size
     (zero_handle\<lparr>block_size := 16, blkcount := zero_block_count\<lparr>blk_ui_firmware := 100\<rparr>,
        img := zero_image_metadata\<lparr>ui_firmware := \<lparr>bd_size = 1601, bd_data = None\<rparr>\<rparr>\<rparr>)
   = Some 0"
  by (simp add: fwu_check_ui_firmware_size_def zero_defs)

text \<open>
  Claim C2, amended. The check compares the integer quotient of the image's firmware size
  by the block size, as stored in 16 bits, with the device's block count: it passes when
  they are equal and fails with \<open>-EINVAL\<close> otherwise. With 100 blocks of 16 bytes, 1600
  bytes pass and 1584 bytes fail; a length that is not a multiple of the block size is
  accepted when its quotient matches.
\<close>

theorem check_ui_firmware_size_quotient:
  assumes "block_size s \<noteq> 0"
  shows "fwu_check_ui_firmware_size s =
     Some (if unat (bd_size (ui_firmware (img s))) div unat (block_size s) mod 65536
                = unat (blk_ui_firmware (blkcount s))
           then 0 else - EINVAL)"
  using assms by (simp add: fwu_check_ui_firmware_size_def check_quotient_nat)

theorem check_ui_firmware_size_quotient_witness:
  "block_size (zero_handle\<lparr>block_size := 16, blkcount := zero_block_count\<lparr>blk_ui_firmware := 100\<rparr>,
        img := zero_image_metadata\<lparr>ui_firmware := \<lparr>bd_size = 1600, bd_data = None\<rparr>\<rparr>\<rparr>) \<noteq> 0 \<and>
   fwu_check_ui_firmware_size
     (zero_handle\<lparr>block_size := 16, blkcount := zero_block_count\<lparr>blk_ui_firmware := 100\<rparr>,
        img := zero_image_metadata\<lparr>ui_firmware := \<lparr>bd_size = 1600, bd_data = None\<rparr>\<rparr>\<rparr>)
     = Some 0 \<and>
   fwu_check_ui_firmware_size
     (zero_handle\<lparr>block_size := 16, blkcount := zero_block_count\<lparr>blk_ui_firmware := 100\<rparr>,
        img := zero_image_metadata\<lparr>ui_firmware := \<lparr>bd_size = 1584, bd_data = None\<rparr>\<rparr>\<rparr>)
     = Some (- EINVAL)"
proof -
  let ?s = "\<lambda>n. zero_handle\<lparr>block_size := 16, blkcount := zero_block_count\<lparr>blk_ui_firmware := 100\<rparr>,
        img := zero_image_metadata\<lparr>ui_firmware := \<lparr>bd_size = n, bd_data = None\<rparr>\<rparr>\<rparr>"
  have h: "block_size (?s n) \<noteq> 0" for n
    by simp
  from check_ui_firmware_size_quotient [OF h, of 1600]
  have a: "fwu_check_ui_firmware_size (?s 1600) = Some 0"
    by (simp add: zero_defs)
  from check_ui_firmware_size_quotient [OF h, of 1584]
  have b: "fwu_check_ui_firmware_size (?s 1584) = Some (- EINVAL)"
    by (simp add: zero_defs)
  from a b h [of 1600] show ?thesis by simp
qed

subsection \<open>Partition tables\<close>

















subsection \<open>The exported entry point\<close>

text \<open>
  Claim C10. When the handle is absent, or the updater is not initialized, or the device
  is in microloader mode, \<open>synaptics_fw_updater\<close> returns \<open>-ENODEV\<close>; the handle (its image
  pointer included) and the bus log are what they were, whatever \<open>fwu_start_reflash\<close>
  would do: the reflash is not started.
\<close>

theorem fw_updater_rejects:
  assumes "fwu = None \<or> (\<exists>s. fwu = Some s \<and> (\<not> initialized s \<or> in_ub_mode s))"
  shows "synaptics_fw_updater start_reflash fw_data fwu l = (- ENODEV, fwu, l)"
  using assms by (auto simp: synaptics_fw_updater_def)

theorem fw_updater_rejects_witness:
  "synaptics_fw_updater (\<lambda>s l. (0, s, l @ [Reg_Write 0 []])) (Some [0x31]) None []
     = (- ENODEV, None, []) \<and>
   synaptics_fw_updater (\<lambda>s l. (0, s, l @ [Reg_Write 0 []])) (Some [0x31]) (Some zero_handle) []
     = (- ENODEV, Some zero_handle, []) \<and>
   synaptics_fw_updater (\<lambda>s l. (0, s, l @ [Reg_Write 0 []])) (Some [0x31])
       (Some (zero_handle\<lparr>initialized := True, in_ub_mode := True\<rparr>)) []
     = (- ENODEV, Some (zero_handle\<lparr>initialized := True, in_ub_mode := True\<rparr>), [])"
proof -
  let ?f = "\<lambda>(s :: synaptics_rmi4_fwu_handle) l. (0 :: int, s, l @ [Reg_Write 0 []])"
  have a: "(None :: synaptics_rmi4_fwu_handle option) = None \<or>
      (\<exists>s. None = Some s \<and> (\<not> initialized s \<or> in_ub_mode s))"
    by simp
  have b: "Some zero_handle = None \<or>
      (\<exists>s. Some zero_handle = Some s \<and> (\<not> initialized s \<or> in_ub_mode s))"
    by (simp add: zero_defs)
  have c: "Some (zero_handle\<lparr>initialized := True, in_ub_mode := True\<rparr>) = None \<or>
      (\<exists>s. Some (zero_handle\<lparr>initialized := True, in_ub_mode := True\<rparr>) = Some s \<and>
           (\<not> initialized s \<or> in_ub_mode s))"
    by simp
  from fw_updater_rejects [OF a, of ?f "Some [0x31]" "[]"]
    fw_updater_rejects [OF b, of ?f "Some [0x31]" "[]"]
    fw_updater_rejects [OF c, of ?f "Some [0x31]" "[]"]
  show ?thesis by simp
qed

subsection \<open>The completion wait\<close>

text \<open>Whatever the semaphore wait returned, \<open>fwu_wait_for_idle\<close> reports a failure only
  when the read of the interrupt status register fails.\<close>

lemma wait_for_idle_failure_is_read_failure:
  assumes "fst (fwu_wait_for_idle h dev timeout_ms s l) < 0"
  shows "fst (fwu_read_interrupt_status dev s (snd (down_timeout dev timeout_ms l))) < 0"
  using assms
  by (auto simp: fwu_wait_for_idle_def Let_def split: prod.splits if_splits)

text \<open>
  Claim C8 (a defect of the code). On the device on which the erase never completes, the
  semaphore wait times out, the flash status is read once more and shows status 3 with
  the erase command pending, and \<open>fwu_wait_for_idle\<close> nevertheless returns 0: the
  \<open>-ETIMEDOUT\<close> stored in \<open>retval\<close> is overwritten by the result of
  \<open>fwu_read_interrupt_status\<close>, so the failed wait is reported as a success.
\<close>

theorem wait_for_idle_timeout_reported_as_success:
  "fwu_wait_for_idle example_header stuck_device ERASE_WAIT_MS
     (example_v7_handle\<lparr>command := CMD_V7_ERASE\<rparr>) [] =
   (0, example_v7_handle\<lparr>command := CMD_V7_ERASE, in_bl_mode := True, flash_status := 3\<rparr>,
    [Down_Timeout 5000, Reg_Read 0x21 1, Reg_Read 0x10 1, Reg_Read 0x11 8])"
  by (simp add: fwu_wait_for_idle_def down_timeout_def fwu_read_interrupt_status_def
      fwu_read_flash_status_def reg_read_def example_v7_handle_def example_header_def
      zero_defs bl_defs ERASE_WAIT_MS_def CMD_V7_ERASE_def BAD_PARTITION_TABLE_def)

subsection \<open>Erasing\<close>

lemma writes_of_append: "writes_of (xs @ ys) = writes_of xs @ writes_of ys"
  by (induction xs rule: writes_of.induct) simp_all

lemma same_setup_refl: "same_setup s s"
  by (simp add: same_setup_def)

lemma same_setup_trans: "same_setup s s' \<Longrightarrow> same_setup s' s'' \<Longrightarrow> same_setup s s''"
  by (simp add: same_setup_def)

lemma same_setup_writes:
  "same_setup s s' \<Longrightarrow> command_writes s' cmd = command_writes s cmd"
  "same_setup s s' \<Longrightarrow> extra_erase_writes s' = extra_erase_writes s"
  by (simp_all add: same_setup_def command_writes_def extra_erase_writes_def)

lemma same_setup_config_area: "same_setup s (s\<lparr>config_area := a\<rparr>)"
  by (simp add: same_setup_def)

lemma read_flash_status_log:
  assumes "fwu_read_flash_status h dev s l = (r, s', l')"
  shows "\<exists>ops. l' = l @ ops \<and> writes_of ops = [] \<and> same_setup s s'"
  using assms
  by (auto simp: fwu_read_flash_status_def reg_read_def Let_def same_setup_def
      split: if_splits prod.splits)

lemma read_interrupt_status_log:
  assumes "fwu_read_interrupt_status dev s l = (r, l')"
  shows "\<exists>ops. l' = l @ ops \<and> writes_of ops = []"
  using assms
  by (auto simp: fwu_read_interrupt_status_def reg_read_def Let_def split: if_splits prod.splits)

lemma wait_for_idle_log:
  assumes "fwu_wait_for_idle h dev ms s l = (r, s', l')"
  shows "\<exists>ops. l' = l @ ops \<and> writes_of ops = [] \<and> same_setup s s'"
proof -
  obtain r0 l1 where d: "down_timeout dev ms l = (r0, l1)" by (cases "down_timeout dev ms l")
  obtain r1 l2 where i: "fwu_read_interrupt_status dev s l1 = (r1, l2)"
    by (cases "fwu_read_interrupt_status dev s l1")
  obtain r2 s2 l3 where f: "fwu_read_flash_status h dev s l2 = (r2, s2, l3)"
    by (cases "fwu_read_flash_status h dev s l2") auto
  from d have l1: "l1 = l @ [Down_Timeout ms]" by (simp add: down_timeout_def)
  from read_interrupt_status_log [OF i] obtain o2 where o2: "l2 = l1 @ o2" "writes_of o2 = []"
    by blast
  from read_flash_status_log [OF f] obtain o3 where o3: "l3 = l2 @ o3" "writes_of o3 = []"
    "same_setup s s2" by blast
  from assms d i f have "s' = s2" "l' = l3"
    by (auto simp: fwu_wait_for_idle_def Let_def split: if_splits)
  with l1 o2 o3 show ?thesis
    by (intro exI [of _ "[Down_Timeout ms] @ o2 @ o3"]) (simp add: writes_of_append)
qed

lemma write_command_log:
  assumes "fwu_write_f34_command dev cmd s l = (r, s', l')" and "0 \<le> r" and "erase_command cmd"
  shows "\<exists>ops. l' = l @ ops \<and> writes_of ops = command_writes s cmd \<and> same_setup s s'"
proof (cases "bl_version s \<ge> BL_V7")
  case True
  with assms show ?thesis
    by (cases cmd)
      (auto simp: fwu_write_f34_command_def fwu_write_f34_v7_command_def
        fwu_write_f34_v7_command_single_transaction_def reg_write_def Let_def
        command_writes_def same_setup_def EINVAL_def split: if_splits prod.splits)
next
  case False
  with assms show ?thesis
    by (cases cmd)
      (auto simp: fwu_write_f34_command_def fwu_write_f34_v5v6_command_def
        reg_write_def Let_def command_writes_def same_setup_def EINVAL_def
        split: if_splits prod.splits)
qed

lemma erase_configuration_log:
  assumes "fwu_erase_configuration h dev s l = (r, s', l')" and "0 \<le> r"
    and "config_area s = UI_CONFIG_AREA \<or> config_area s = DP_CONFIG_AREA"
  shows "\<exists>ops. l' = l @ ops \<and>
           writes_of ops = command_writes s
             (if config_area s = UI_CONFIG_AREA then CMD_ERASE_UI_CONFIG else CMD_ERASE_DISP_CONFIG) \<and>
           same_setup s s'"
proof -
  let ?cmd = "if config_area s = UI_CONFIG_AREA then CMD_ERASE_UI_CONFIG else CMD_ERASE_DISP_CONFIG"
  obtain r1 s1 l1 where w: "fwu_write_f34_command dev ?cmd s l = (r1, s1, l1)"
    by (cases "fwu_write_f34_command dev ?cmd s l") auto
  obtain r2 s2 l2 where i: "fwu_wait_for_idle h dev ERASE_WAIT_MS s1 l1 = (r2, s2, l2)"
    by (cases "fwu_wait_for_idle h dev ERASE_WAIT_MS s1 l1") auto
  from assms w have r1: "0 \<le> r1"
    by (auto simp: fwu_erase_configuration_def Let_def split: if_splits)
  with assms w i have res: "s' = s2" "l' = l2"
    by (auto simp: fwu_erase_configuration_def Let_def split: if_splits)
  have "erase_command ?cmd" by simp
  from write_command_log [OF w r1 this] obtain o1 where
    o1: "l1 = l @ o1" "writes_of o1 = command_writes s ?cmd" "same_setup s s1" by blast
  from wait_for_idle_log [OF i] obtain o2 where
    o2: "l2 = l1 @ o2" "writes_of o2 = []" "same_setup s1 s2" by blast
  from res o1 o2 show ?thesis
    by (intro exI [of _ "o1 @ o2"]) (auto simp: writes_of_append intro: same_setup_trans)
qed

lemma erase_guest_code_log:
  assumes "fwu_erase_guest_code h dev s l = (r, s', l')" and "0 \<le> r"
  shows "\<exists>ops. l' = l @ ops \<and> writes_of ops = command_writes s CMD_ERASE_GUEST_CODE \<and>
           same_setup s s'"
proof -
  obtain r1 s1 l1 where w: "fwu_write_f34_command dev CMD_ERASE_GUEST_CODE s l = (r1, s1, l1)"
    by (cases "fwu_write_f34_command dev CMD_ERASE_GUEST_CODE s l") auto
  obtain r2 s2 l2 where i: "fwu_wait_for_idle h dev ERASE_WAIT_MS s1 l1 = (r2, s2, l2)"
    by (cases "fwu_wait_for_idle h dev ERASE_WAIT_MS s1 l1") auto
  from assms w have r1: "0 \<le> r1"
    by (auto simp: fwu_erase_guest_code_def Let_def split: if_splits)
  with assms w i have res: "s' = s2" "l' = l2"
    by (auto simp: fwu_erase_guest_code_def Let_def split: if_splits)
  have "erase_command CMD_ERASE_GUEST_CODE" by simp
  from write_command_log [OF w r1 this] obtain o1 where
    o1: "l1 = l @ o1" "writes_of o1 = command_writes s CMD_ERASE_GUEST_CODE" "same_setup s s1"
    by blast
  from wait_for_idle_log [OF i] obtain o2 where
    o2: "l2 = l1 @ o2" "writes_of o2 = []" "same_setup s1 s2" by blast
  from res o1 o2 show ?thesis
    by (intro exI [of _ "o1 @ o2"]) (auto simp: writes_of_append intro: same_setup_trans)
qed

lemma erase_all_tail_log:
  assumes "fwu_erase_all_tail h dev s l = (r, s', l')" and "0 \<le> r"
  shows "\<exists>ops. l' = l @ ops \<and> writes_of ops = extra_erase_writes s \<and> same_setup s s'"
proof -
  let ?sd = "s\<lparr>config_area := DP_CONFIG_AREA\<rparr>"
  obtain r1 s1 l1 where
    d: "(if has_disp_config s then fwu_erase_configuration h dev ?sd l else (0, s, l)) = (r1, s1, l1)"
    by (cases "if has_disp_config s then fwu_erase_configuration h dev ?sd l else (0, s, l)") auto
  from assms d have r1: "0 \<le> r1"
    by (auto simp: fwu_erase_all_tail_def Let_def split: if_splits)
  have s1: "\<exists>o1. l1 = l @ o1 \<and>
      writes_of o1 = (if has_disp_config s then command_writes s CMD_ERASE_DISP_CONFIG else []) \<and>
      same_setup s s1"
  proof (cases "has_disp_config s")
    case True
    with d have e: "fwu_erase_configuration h dev ?sd l = (r1, s1, l1)" by simp
    have "config_area ?sd = UI_CONFIG_AREA \<or> config_area ?sd = DP_CONFIG_AREA" by simp
    from erase_configuration_log [OF e r1 this] True show ?thesis
      by (auto simp: DP_CONFIG_AREA_def UI_CONFIG_AREA_def same_setup_def command_writes_def)
  next
    case False
    with d show ?thesis by (auto simp: same_setup_refl)
  qed
  then obtain o1 where o1: "l1 = l @ o1"
    "writes_of o1 = (if has_disp_config s then command_writes s CMD_ERASE_DISP_CONFIG else [])"
    "same_setup s s1" by blast
  show ?thesis
  proof (cases "new_partition_table s1 \<and> has_guest_code s1")
    case True
    obtain r2 s2 l2 where g: "fwu_erase_guest_code h dev s1 l1 = (r2, s2, l2)"
      by (cases "fwu_erase_guest_code h dev s1 l1") auto
    from assms d r1 True g have r2: "0 \<le> r2" and res: "s' = s2" "l' = l2"
      by (auto simp: fwu_erase_all_tail_def Let_def split: if_splits)
    from erase_guest_code_log [OF g r2] obtain o2 where o2: "l2 = l1 @ o2"
      "writes_of o2 = command_writes s1 CMD_ERASE_GUEST_CODE" "same_setup s1 s2" by blast
    from True o1(3) have "new_partition_table s \<and> has_guest_code s"
      by (simp add: same_setup_def)
    with res o1 o2 same_setup_writes(1) [OF o1(3)] show ?thesis
      by (intro exI [of _ "o1 @ o2"])
        (auto simp: writes_of_append extra_erase_writes_def intro: same_setup_trans)
  next
    case False
    with assms d r1 have res: "s' = s1" "l' = l1"
      by (auto simp: fwu_erase_all_tail_def Let_def split: if_splits)
    from False o1(3) have "\<not> (new_partition_table s \<and> has_guest_code s)"
      by (simp add: same_setup_def)
    with res o1 show ?thesis
      by (intro exI [of _ o1]) (auto simp: extra_erase_writes_def)
  qed
qed

text \<open>
  Claim C3, as stated, fails for protocol version 8: on a device on which every step
  succeeds the whole erase phase makes one register write, the erase-all command
  (\<open>CMD_V7_ERASE_AP\<close>), and no area erase.
\<close>

theorem erase_all_v8_counterexample:
  "writes_of (snd (snd (fwu_erase_all example_header idle_device
      (example_v7_handle\<lparr>bl_version := BL_V8\<rparr>) []))) =
   [(0x11, data_1_5_bytes CORE_CODE_PARTITION CMD_V7_ERASE_AP (0, 0))]"
  by (simp add: fwu_erase_all_def fwu_write_f34_command_def fwu_write_f34_v7_command_def
      fwu_write_f34_v7_command_single_transaction_def reg_write_def
      fwu_wait_for_idle_def down_timeout_def fwu_read_interrupt_status_def
      fwu_read_flash_status_def reg_read_def example_v7_handle_def example_header_def
      zero_defs bl_defs ERASE_WAIT_MS_def CMD_V7_ERASE_AP_def BAD_PARTITION_TABLE_def
      CORE_CODE_PARTITION_def data_1_5_bytes_def)

text \<open>
  Claim C3, amended. When \<open>fwu_erase_all\<close> completes without error, the register writes
  it has made are: for protocol version 7 the erase of the firmware area and then the
  erase of the UI-configuration area, two distinct area-erase commands; for version 8 one
  erase-all command and nothing else; for versions 5 and 6 one erase-all command. In
  versions 5, 6 and 7 the erases of display configuration and guest code follow where the
  device calls for them.
\<close>

theorem erase_all_commands:
  assumes run: "fwu_erase_all h dev s l = (retval, s', l')" and ok: "0 \<le> retval"
  shows "\<exists>ops. l' = l @ ops \<and>
     (bl_version s = BL_V7 \<longrightarrow>
        writes_of ops = command_writes s CMD_ERASE_UI_FIRMWARE @
                        command_writes s CMD_ERASE_UI_CONFIG @ extra_erase_writes s) \<and>
     (bl_version s = BL_V8 \<longrightarrow> writes_of ops = command_writes s CMD_ERASE_ALL) \<and>
     (bl_version s = BL_V5 \<or> bl_version s = BL_V6 \<longrightarrow>
        writes_of ops = command_writes s CMD_ERASE_ALL @ extra_erase_writes s)"
proof (cases "bl_version s = BL_V7")
  case True
  obtain r1 s1 l1 where w: "fwu_write_f34_command dev CMD_ERASE_UI_FIRMWARE s l = (r1, s1, l1)"
    by (cases "fwu_write_f34_command dev CMD_ERASE_UI_FIRMWARE s l") auto
  obtain r2 s2 l2 where i: "fwu_wait_for_idle h dev ERASE_WAIT_MS s1 l1 = (r2, s2, l2)"
    by (cases "fwu_wait_for_idle h dev ERASE_WAIT_MS s1 l1") auto
  let ?su = "s2\<lparr>config_area := UI_CONFIG_AREA\<rparr>"
  obtain r3 s3 l3 where e: "fwu_erase_configuration h dev ?su l2 = (r3, s3, l3)"
    by (cases "fwu_erase_configuration h dev ?su l2") auto
  from run ok True w have r1: "0 \<le> r1"
    by (auto simp: fwu_erase_all_def Let_def split: if_splits)
  with run ok True w i have r2: "0 \<le> r2"
    by (auto simp: fwu_erase_all_def Let_def split: if_splits)
  with run ok True w i e r1 have r3: "0 \<le> r3"
    by (auto simp: fwu_erase_all_def Let_def split: if_splits)
  with run True w i e r1 r2 have t: "fwu_erase_all_tail h dev s3 l3 = (retval, s', l')"
    by (auto simp: fwu_erase_all_def Let_def split: if_splits)
  have "erase_command CMD_ERASE_UI_FIRMWARE" by simp
  from write_command_log [OF w r1 this] obtain o1 where o1: "l1 = l @ o1"
    "writes_of o1 = command_writes s CMD_ERASE_UI_FIRMWARE" "same_setup s s1" by blast
  from wait_for_idle_log [OF i] obtain o2 where o2: "l2 = l1 @ o2" "writes_of o2 = []"
    "same_setup s1 s2" by blast
  have "config_area ?su = UI_CONFIG_AREA \<or> config_area ?su = DP_CONFIG_AREA" by simp
  from erase_configuration_log [OF e r3 this] obtain o3 where o3: "l3 = l2 @ o3"
    "writes_of o3 = command_writes ?su CMD_ERASE_UI_CONFIG" "same_setup ?su s3" by auto
  from erase_all_tail_log [OF t ok] obtain o4 where o4: "l' = l3 @ o4"
    "writes_of o4 = extra_erase_writes s3" "same_setup s3 s'" by blast
  have su: "same_setup s ?su"
    using o1(3) o2(3) by (simp add: same_setup_def)
  then have s3: "same_setup s s3"
    using o3(3) by (rule same_setup_trans)
  from o1 o2 o3 o4 True same_setup_writes(1) [OF su] same_setup_writes(2) [OF s3]
  show ?thesis
    by (intro exI [of _ "o1 @ o2 @ o3 @ o4"]) (simp add: writes_of_append bl_defs)
next
  case False
  obtain r1 s1 l1 where w: "fwu_write_f34_command dev CMD_ERASE_ALL s l = (r1, s1, l1)"
    by (cases "fwu_write_f34_command dev CMD_ERASE_ALL s l") auto
  obtain r2 s2 l2 where i: "fwu_wait_for_idle h dev ERASE_WAIT_MS s1 l1 = (r2, s2, l2)"
    by (cases "fwu_wait_for_idle h dev ERASE_WAIT_MS s1 l1") auto
  from run ok False w have r1: "0 \<le> r1"
    by (auto simp: fwu_erase_all_def Let_def split: if_splits)
  have "erase_command CMD_ERASE_ALL" by simp
  from write_command_log [OF w r1 this] obtain o1 where o1: "l1 = l @ o1"
    "writes_of o1 = command_writes s CMD_ERASE_ALL" "same_setup s s1" by blast
  from wait_for_idle_log [OF i] obtain o2 where o2: "l2 = l1 @ o2" "writes_of o2 = []"
    "same_setup s1 s2" by blast
  have s2: "same_setup s s2"
    using o1(3) o2(3) by (rule same_setup_trans)
  then have v2: "bl_version s2 = bl_version s"
    by (simp add: same_setup_def)
  show ?thesis
  proof (cases "bl_version s = BL_V8")
    case True
    with run ok False w i r1 v2 have "l' = l2"
      by (auto simp: fwu_erase_all_def Let_def split: if_splits)
    with o1 o2 True show ?thesis
      by (intro exI [of _ "o1 @ o2"]) (simp add: writes_of_append bl_defs)
  next
    case V8: False
    with run ok False w i r1 v2 have t: "fwu_erase_all_tail h dev s2 l2 = (retval, s', l')"
      by (auto simp: fwu_erase_all_def Let_def split: if_splits)
    from erase_all_tail_log [OF t ok] obtain o4 where o4: "l' = l2 @ o4"
      "writes_of o4 = extra_erase_writes s2" "same_setup s2 s'" by blast
    from o1 o2 o4 False V8 same_setup_writes(2) [OF s2] show ?thesis
      by (intro exI [of _ "o1 @ o2 @ o4"]) (simp add: writes_of_append bl_defs)
  qed
qed

lemmas erase_eval = fwu_erase_all_def fwu_erase_all_tail_def fwu_erase_configuration_def
  fwu_write_f34_command_def fwu_write_f34_v7_command_def fwu_write_f34_v5v6_command_def
  fwu_write_f34_v7_command_single_transaction_def reg_write_def
  fwu_wait_for_idle_def down_timeout_def fwu_read_interrupt_status_def
  fwu_read_flash_status_def reg_read_def example_v7_handle_def example_header_def
  zero_defs bl_defs ERASE_WAIT_MS_def BAD_PARTITION_TABLE_def

theorem erase_all_commands_witness:
  "0 \<le> fst (fwu_erase_all example_header idle_device example_v7_handle []) \<and>
   writes_of (snd (snd (fwu_erase_all example_header idle_device example_v7_handle []))) =
     [(0x11, data_1_5_bytes CORE_CODE_PARTITION CMD_V7_ERASE (0, 0)),
      (0x11, data_1_5_bytes CORE_CONFIG_PARTITION CMD_V7_ERASE (0, 0))] \<and>
   0 \<le> fst (fwu_erase_all example_header idle_device (example_v7_handle\<lparr>bl_version := BL_V6\<rparr>) []) \<and>
   writes_of (snd (snd (fwu_erase_all example_header idle_device
       (example_v7_handle\<lparr>bl_version := BL_V6\<rparr>) []))) =
     [(0x15, [0, 0]), (0x14, [CMD_V5V6_ERASE_ALL])]"
proof -
  let ?r7 = "fwu_erase_all example_header idle_device example_v7_handle []"
  let ?s6 = "example_v7_handle\<lparr>bl_version := BL_V6\<rparr>"
  let ?r6 = "fwu_erase_all example_header idle_device ?s6 []"
  have ok7: "0 \<le> fst ?r7"
    by (simp add: erase_eval)
  have ok6: "0 \<le> fst ?r6"
    by (simp add: erase_eval)
  have v7: "bl_version example_v7_handle = BL_V7" and v6: "bl_version ?s6 = BL_V6"
    by (simp_all add: example_v7_handle_def)
  have w7: "command_writes example_v7_handle CMD_ERASE_UI_FIRMWARE @
        command_writes example_v7_handle CMD_ERASE_UI_CONFIG @ extra_erase_writes example_v7_handle =
     [(0x11, data_1_5_bytes CORE_CODE_PARTITION CMD_V7_ERASE (0, 0)),
      (0x11, data_1_5_bytes CORE_CONFIG_PARTITION CMD_V7_ERASE (0, 0))]"
    by (simp add: command_writes_def extra_erase_writes_def example_v7_handle_def zero_defs bl_defs)
  have w6: "command_writes ?s6 CMD_ERASE_ALL @ extra_erase_writes ?s6 =
     [(0x15, [0, 0]), (0x14, [CMD_V5V6_ERASE_ALL])]"
    by (simp add: command_writes_def extra_erase_writes_def example_v7_handle_def zero_defs bl_defs)
  from erase_all_commands [of example_header idle_device example_v7_handle "[]"
      "fst ?r7" "fst (snd ?r7)" "snd (snd ?r7)", OF _ ok7] v7 w7
  have a: "writes_of (snd (snd ?r7)) =
     [(0x11, data_1_5_bytes CORE_CODE_PARTITION CMD_V7_ERASE (0, 0)),
      (0x11, data_1_5_bytes CORE_CONFIG_PARTITION CMD_V7_ERASE (0, 0))]"
    by auto
  from erase_all_commands [of example_header idle_device ?s6 "[]"
      "fst ?r6" "fst (snd ?r6)" "snd (snd ?r6)", OF _ ok6] v6 w6
  have b: "writes_of (snd (snd ?r6)) = [(0x15, [0, 0]), (0x14, [CMD_V5V6_ERASE_ALL])]"
    by (auto simp: bl_defs)
  from ok7 ok6 a b show ?thesis by simp
qed

subsection \<open>The descriptor-table scan\<close>

lemma scan_pdt_entry_other:
  assumes "fn_number rmi_fd \<noteq> SYNAPTICS_RMI4_F01 h" and "fn_number rmi_fd \<noteq> SYNAPTICS_RMI4_F34 h"
  shows "\<exists>st'. scan_pdt_entry h rmi_fd st = Inr st' \<and>
           f01found st' = f01found st \<and> f34found st' = f34found st \<and>
           f35found st' = (f35found st \<or> fn_number rmi_fd = SYNAPTICS_RMI4_F35 h) \<and>
           in_ub_mode (scan_fwu st') = in_ub_mode (scan_fwu st) \<and>
           scan_log st' = scan_log st"
  using assms by (simp add: scan_pdt_entry_def Let_def)

lemma scan_pdt_loop_no_f01_f34:
  assumes ok: "list_all (\<lambda>r. 0 \<le> fst r) (scan_reads h dev addrs (scan_log st))"
    and no01: "SYNAPTICS_RMI4_F01 h \<notin> set (functions_upto_zero (scan_reads h dev addrs (scan_log st)))"
    and no34: "SYNAPTICS_RMI4_F34 h \<notin> set (functions_upto_zero (scan_reads h dev addrs (scan_log st)))"
  shows "\<exists>st'. scan_pdt_loop h dev addrs st = Inr st' \<and>
           f01found st' = f01found st \<and> f34found st' = f34found st \<and>
           f35found st' = (f35found st \<or>
              SYNAPTICS_RMI4_F35 h \<in> set (functions_upto_zero (scan_reads h dev addrs (scan_log st)))) \<and>
           in_ub_mode (scan_fwu st') = in_ub_mode (scan_fwu st)"
  using ok no01 no34
proof (induction addrs arbitrary: st)
  case Nil
  then show ?case by (simp add: functions_upto_zero_def)
next
  case (Cons addr addrs)
  obtain rv buf l' where rd: "reg_read dev addr (sizeof_fn_desc h) (scan_log st) = (rv, buf, l')"
    by (cases "reg_read dev addr (sizeof_fn_desc h) (scan_log st)") auto
  let ?fd = "fn_desc_of h buf"
  let ?st0 = "st\<lparr>scan_log := l'\<rparr>"
  from Cons.prems(1) rd have rok: "\<not> rv < 0"
    and ok': "list_all (\<lambda>r. 0 \<le> fst r) (scan_reads h dev addrs l')"
    by simp_all
  show ?case
  proof (cases "fn_number ?fd = 0")
    case True
    then show ?thesis
      using rd rok by (simp add: functions_upto_zero_def)
  next
    case False
    then have fns: "functions_upto_zero (scan_reads h dev (addr # addrs) (scan_log st)) =
        fn_number ?fd # functions_upto_zero (scan_reads h dev addrs l')"
      using rd by (simp add: functions_upto_zero_def)
    with Cons.prems have ne: "fn_number ?fd \<noteq> SYNAPTICS_RMI4_F01 h"
      "fn_number ?fd \<noteq> SYNAPTICS_RMI4_F34 h"
      and rest: "SYNAPTICS_RMI4_F01 h \<notin> set (functions_upto_zero (scan_reads h dev addrs l'))"
        "SYNAPTICS_RMI4_F34 h \<notin> set (functions_upto_zero (scan_reads h dev addrs l'))"
      by auto
    from scan_pdt_entry_other [OF ne, of ?st0] obtain st1 where
      st1: "scan_pdt_entry h ?fd ?st0 = Inr st1" "f01found st1 = f01found st"
        "f34found st1 = f34found st"
        "f35found st1 = (f35found st \<or> fn_number ?fd = SYNAPTICS_RMI4_F35 h)"
        "in_ub_mode (scan_fwu st1) = in_ub_mode (scan_fwu st)"
        "scan_log st1 = l'"
      by auto
    let ?st2 = "st1\<lparr>intr_count := intr_count st1 + ucast (intr_src_count ?fd)\<rparr>"
    have log2: "scan_log ?st2 = l'"
      using st1(6) by simp
    from Cons.IH [of ?st2] ok' rest log2 obtain st' where
      st': "scan_pdt_loop h dev addrs ?st2 = Inr st'" "f01found st' = f01found ?st2"
        "f34found st' = f34found ?st2"
        "f35found st' = (f35found ?st2 \<or>
           SYNAPTICS_RMI4_F35 h \<in> set (functions_upto_zero (scan_reads h dev addrs l')))"
        "in_ub_mode (scan_fwu st') = in_ub_mode (scan_fwu ?st2)"
      by auto
    have "scan_pdt_loop h dev (addr # addrs) st = scan_pdt_loop h dev addrs ?st2"
      using rd rok False st1(1) by simp
    with st' st1 fns show ?thesis
      by auto
  qed
qed

text \<open>
  Claim C6. For every scan of the descriptor table whose reads succeed and which finds
  neither F01 nor F34 before the end of the table: if it finds F35 the scan returns 0 and
  records microloader mode (\<open>in_ub_mode\<close>); if it does not find F35 either, the scan
  fails with \<open>-EINVAL\<close>.
\<close>

theorem scan_pdt_microloader:
  assumes ok: "table_reads_succeed h dev l"
    and no01: "\<not> function_in_table h dev l (SYNAPTICS_RMI4_F01 h)"
    and no34: "\<not> function_in_table h dev l (SYNAPTICS_RMI4_F34 h)"
  shows "(function_in_table h dev l (SYNAPTICS_RMI4_F35 h) \<longrightarrow>
            fst (fwu_scan_pdt h dev s l) = 0 \<and> in_ub_mode (fst (snd (fwu_scan_pdt h dev s l)))) \<and>
         (\<not> function_in_table h dev l (SYNAPTICS_RMI4_F35 h) \<longrightarrow>
            fst (fwu_scan_pdt h dev s l) = - EINVAL \<and>
            \<not> in_ub_mode (fst (snd (fwu_scan_pdt h dev s l))))"
proof -
  let ?st = "\<lparr>intr_count = 0, f01found = False, f34found = False, f35found = False,
              scan_fwu = s\<lparr>in_ub_mode := False\<rparr>, scan_log = l\<rparr>"
  from scan_pdt_loop_no_f01_f34 [of h dev "pdt_addrs h" ?st] ok no01 no34
  obtain st' where st': "scan_pdt_loop h dev (pdt_addrs h) ?st = Inr st'"
    "\<not> f01found st'" "\<not> f34found st'"
    "f35found st' = function_in_table h dev l (SYNAPTICS_RMI4_F35 h)"
    "\<not> in_ub_mode (scan_fwu st')"
    by (auto simp: function_in_table_def table_reads_succeed_def)
  then show ?thesis
    by (auto simp: fwu_scan_pdt_def Let_def split: prod.splits)
qed

theorem scan_pdt_microloader_witness:
  "table_reads_succeed example_header (table_device microloader_table) [] \<and>
   \<not> function_in_table example_header (table_device microloader_table) [] (SYNAPTICS_RMI4_F01 example_header) \<and>
   \<not> function_in_table example_header (table_device microloader_table) [] (SYNAPTICS_RMI4_F34 example_header) \<and>
   function_in_table example_header (table_device microloader_table) [] (SYNAPTICS_RMI4_F35 example_header) \<and>
   fst (fwu_scan_pdt example_header (table_device microloader_table) zero_handle []) = 0 \<and>
   in_ub_mode (fst (snd (fwu_scan_pdt example_header (table_device microloader_table) zero_handle []))) \<and>
   table_reads_succeed example_header (table_device empty_table) [] \<and>
   \<not> function_in_table example_header (table_device empty_table) [] (SYNAPTICS_RMI4_F01 example_header) \<and>
   \<not> function_in_table example_header (table_device empty_table) [] (SYNAPTICS_RMI4_F34 example_header) \<and>
   \<not> function_in_table example_header (table_device empty_table) [] (SYNAPTICS_RMI4_F35 example_header) \<and>
   fst (fwu_scan_pdt example_header (table_device empty_table) zero_handle []) = - EINVAL"
proof -
  let ?m = "table_device microloader_table"
  let ?e = "table_device empty_table"
  have found: "functions_upto_zero (scan_reads example_header ?m (pdt_addrs example_header) []) = [0x35]"
    "functions_upto_zero (scan_reads example_header ?e (pdt_addrs example_header) []) = []"
    by (simp_all add: functions_upto_zero_def reg_read_def example_header_def
        example_fn_desc_of_def microloader_table_def empty_table_def)
  have ok: "table_reads_succeed example_header ?m []" "table_reads_succeed example_header ?e []"
    by (simp_all add: table_reads_succeed_def reg_read_def example_header_def
        microloader_table_def empty_table_def)
  have m: "\<not> function_in_table example_header ?m [] (SYNAPTICS_RMI4_F01 example_header)"
    "\<not> function_in_table example_header ?m [] (SYNAPTICS_RMI4_F34 example_header)"
    "function_in_table example_header ?m [] (SYNAPTICS_RMI4_F35 example_header)"
    by (simp_all add: function_in_table_def found) (simp_all add: example_header_def)
  have e: "\<not> function_in_table example_header ?e [] (SYNAPTICS_RMI4_F01 example_header)"
    "\<not> function_in_table example_header ?e [] (SYNAPTICS_RMI4_F34 example_header)"
    "\<not> function_in_table example_header ?e [] (SYNAPTICS_RMI4_F35 example_header)"
    by (simp_all add: function_in_table_def found)
  from scan_pdt_microloader [OF ok(1) m(1) m(2), of zero_handle] m(3)
  have a: "fst (fwu_scan_pdt example_header ?m zero_handle []) = 0"
    "in_ub_mode (fst (snd (fwu_scan_pdt example_header ?m zero_handle [])))"
    by simp_all
  from scan_pdt_microloader [OF ok(2) e(1) e(2), of zero_handle] e(3)
  have b: "fst (fwu_scan_pdt example_header ?e zero_handle []) = - EINVAL"
    by simp
  from ok m e a b show ?thesis
    by simp
qed

subsection \<open>Recovery: writing the image in chunks\<close>

lemma chunk_total_qr:
  fixes q r :: nat
  assumes "r < 16"
  shows "(16 * q + r + 15) div 16 = (if r = 0 then q else q + 1)"
  using assms by auto

lemma chunk_size_qr:
  fixes q r k :: nat
  assumes "r < 16" and "k < (if r = 0 then q else q + 1)"
  shows "(if r \<noteq> 0 \<and> k = (if r = 0 then q else q + 1) - 1 then r else 16)
           = min 16 (16 * q + r - 16 * k)"
    and "16 * k + min 16 (16 * q + r - 16 * k) \<le> 16 * q + r"
    and "0 < min 16 (16 * q + r - 16 * k)"
    and "Suc k < (if r = 0 then q else q + 1) \<Longrightarrow> min 16 (16 * q + r - 16 * k) = 16"
  using assms by (auto simp: min_def split: if_splits)

lemma chunk_total_nat:
  fixes n :: nat
  shows "(n + 15) div 16 = (if n mod 16 = 0 then n div 16 else n div 16 + 1)"
proof -
  have n: "16 * (n div 16) + n mod 16 = n"
    by simp
  have r: "n mod 16 < 16"
    by simp
  show ?thesis
    using chunk_total_qr [OF r, of "n div 16"] unfolding n .
qed

lemma chunk_total_cases:
  fixes n k :: nat
  assumes k: "k < (n + 15) div 16"
  shows "(if n mod 16 \<noteq> 0 \<and> k = (n + 15) div 16 - 1 then n mod 16 else 16) = min 16 (n - 16 * k)"
    and "16 * k + min 16 (n - 16 * k) \<le> n"
    and "0 < min 16 (n - 16 * k)"
    and "Suc k < (n + 15) div 16 \<Longrightarrow> min 16 (n - 16 * k) = 16"
proof -
  have n: "16 * (n div 16) + n mod 16 = n"
    by simp
  have r: "n mod 16 < 16"
    by simp
  have T: "(n + 15) div 16 = (if n mod 16 = 0 then n div 16 else n div 16 + 1)"
    using chunk_total_qr [OF r, of "n div 16"] unfolding n .
  from k have k': "k < (if n mod 16 = 0 then n div 16 else n div 16 + 1)"
    unfolding T .
  show "(if n mod 16 \<noteq> 0 \<and> k = (n + 15) div 16 - 1 then n mod 16 else 16) = min 16 (n - 16 * k)"
    using chunk_size_qr(1) [OF r k'] unfolding n T .
  show "16 * k + min 16 (n - 16 * k) \<le> n"
    using chunk_size_qr(2) [OF r k'] unfolding n .
  show "0 < min 16 (n - 16 * k)"
    using chunk_size_qr(3) [OF r k'] unfolding n .
  show "min 16 (n - 16 * k) = 16" if "Suc k < (n + 15) div 16"
    using chunk_size_qr(4) [OF r k'] that unfolding n T by simp
qed

lemma unat_ucast_8_16:
  fixes b :: byte
  shows "unat (ucast b :: u16) = unat b"
  by (simp add: unsigned_ucast_eq take_bit_nat_eq_self_iff
      order_less_trans [OF unsigned_less [of b, simplified]])

lemma uint_pred_eq:
  fixes a b :: u16
  assumes "0 < unat b"
  shows "(uint a = uint b - 1) = (unat a = unat b - 1)"
  using assms unfolding uint_nat by arith

lemma unat_succ_u16:
  fixes a b :: u16
  assumes "a < b"
  shows "unat (a + 1) = unat a + 1"
proof -
  from assms have "unat a < unat b"
    by (simp add: word_less_nat_alt)
  moreover have "unat b < 2 ^ 16"
    using unsigned_less [of b] by simp
  ultimately have "unat a + 1 < 2 ^ 16"
    by simp
  then show ?thesis
    by (simp add: unat_word_ariths)
qed

lemma unat_sub_u32:
  fixes a b :: u32
  assumes "unat b \<le> unat a"
  shows "unat (a - b) = unat a - unat b"
  using assms by (simp add: unat_sub word_le_nat_alt)

lemma unat_add_bw:
  fixes bw :: u16 and cs :: byte
  shows "unat (bw + ucast cs) = (unat bw + unat cs) mod 65536"
  by (simp add: unat_word_ariths unat_ucast_8_16)

lemma unat_div16:
  fixes a :: u32
  shows "unat (ucast (a div 16) :: u16) = unat a div 16 mod 65536"
proof -
  have "unat (ucast (a div 16) :: u16) = unat (a div 16) mod 65536"
    by (simp add: unsigned_ucast_eq take_bit_eq_mod)
  also have "unat (a div 16) = unat a div 16"
    by (simp add: unat_div)
  finally show ?thesis .
qed

lemma unat_mod16:
  fixes a :: u32
  shows "unat (ucast (a mod 16) :: byte) = unat a mod 16"
proof -
  have "unat (ucast (a mod 16) :: byte) = unat (a mod 16) mod 256"
    by (simp add: unsigned_ucast_eq take_bit_eq_mod)
  also have "unat (a mod 16) = unat a mod 16"
    by (simp add: unat_mod)
  also have "unat a mod 16 mod 256 = unat a mod 16"
    by (simp add: mod_mod_cancel)
  finally show ?thesis .
qed

lemma recovery_chunk_loop_writes:
  fixes img_size :: u32 and chunk_total chunk bytes_written :: u16 and chunk_spare :: byte
  assumes wr: "\<And>l addr bs. 0 \<le> fst (dev l (Reg_Write addr bs))"
    and n: "unat img_size = length image_bytes"
    and total: "unat chunk_total = (length image_bytes + 15) div 16"
    and spare: "unat chunk_spare = length image_bytes mod 16"
    and k: "unat chunk \<le> unat chunk_total"
    and pos: "unat chunk < unat chunk_total \<longrightarrow>
               chunk_ptr = 16 * unat chunk \<and> unat bytes_written = (16 * unat chunk) mod 65536"
  shows "recovery_chunk_loop dev base image_bytes img_size chunk_spare chunk_total chunk
           chunk_ptr bytes_written l =
         Some (0, l @ map (\<lambda>j. Reg_Write (base + F35_CHUNK_DATA_OFFSET)
                            (zero_pad (take 16 (drop (16 * j) image_bytes)) @ [CMD_F35_WRITE_CHUNK]))
                        [unat chunk ..< unat chunk_total])"
  using k pos
proof (induction "unat chunk_total - unat chunk" arbitrary: chunk chunk_ptr bytes_written l)
  case 0
  then have "\<not> chunk < chunk_total"
    by (simp add: word_less_nat_alt)
  with 0 show ?case
    by (subst recovery_chunk_loop.simps) simp
next
  case (Suc d)
  let ?n = "length image_bytes"
  let ?k = "unat chunk"
  let ?c = "min 16 (?n - 16 * ?k)"
  from Suc.hyps(2) have lt: "?k < unat chunk_total"
    by simp
  then have wlt: "chunk < chunk_total"
    by (simp add: word_less_nat_alt)
  from lt have kT: "?k < (?n + 15) div 16"
    by (simp add: total)
  from lt Suc.prems(2) have ptr: "chunk_ptr = 16 * ?k" and bw: "unat bytes_written = (16 * ?k) mod 65536"
    by simp_all
  define chunk_size :: byte where
    "chunk_size = (if chunk_spare \<noteq> 0 \<and> uint chunk = uint chunk_total - 1
                   then chunk_spare else word_of_nat F35_CHUNK_SIZE)"
  have sp0: "(chunk_spare \<noteq> 0) = (?n mod 16 \<noteq> 0)"
    using spare by (metis unat_eq_0)
  have Tpos: "0 < unat chunk_total"
    using lt by simp
  have cs_if: "unat chunk_size =
      (if ?n mod 16 \<noteq> 0 \<and> ?k = (?n + 15) div 16 - 1 then ?n mod 16 else 16)"
    by (simp add: chunk_size_def sp0 uint_pred_eq [OF Tpos] spare total F35_CHUNK_SIZE_def)
  have cs: "unat chunk_size = ?c"
    unfolding cs_if by (rule chunk_total_cases(1) [OF kT])
  have le_n: "16 * ?k + ?c \<le> ?n" and c_pos: "0 < ?c" and c16: "?c \<le> 16"
    using chunk_total_cases(2,3) [OF kT] by simp_all
  have bw_le: "unat (ucast bytes_written :: u32) \<le> unat img_size"
    using le_n by (simp add: unat_ucast_16_32 bw n)
  have src_size: "?c \<le> unat (img_size - ucast bytes_written)"
  proof -
    have "unat (img_size - ucast bytes_written) = ?n - (16 * ?k) mod 65536"
      using bw_le by (simp add: unat_sub_u32 unat_ucast_16_32 bw n)
    moreover have "(16 * ?k) mod 65536 \<le> 16 * ?k"
      by simp
    ultimately show ?thesis
      using le_n by linarith
  qed
  define c where "c = ?c"
  have c_facts: "unat chunk_size = c" "c \<le> 16" "c \<le> unat (img_size - ucast bytes_written)"
    "c \<le> length (drop (16 * ?k) image_bytes)"
    "length (take 16 (drop (16 * ?k) image_bytes)) = c"
    "take c (drop (16 * ?k) image_bytes) = take 16 (drop (16 * ?k) image_bytes)"
    using cs c16 src_size le_n by (simp_all add: c_def min_def)
  have "secure_memcpy (replicate 16 0 @ [CMD_F35_WRITE_CHUNK]) 17
        (drop (16 * ?k) image_bytes) (unat (img_size - ucast bytes_written)) c =
      Some (0, take c (drop (16 * ?k) image_bytes) @ replicate (16 - c) 0 @ [CMD_F35_WRITE_CHUNK])"
    using c_facts(2,3,4) by (simp add: secure_memcpy_def)
  then have cpy: "secure_memcpy (replicate F35_CHUNK_SIZE 0 @ [CMD_F35_WRITE_CHUNK]) (F35_CHUNK_SIZE + 1)
        (drop chunk_ptr image_bytes) (unat (img_size - ucast bytes_written)) (unat chunk_size) =
      Some (0, zero_pad (take 16 (drop (16 * ?k) image_bytes)) @ [CMD_F35_WRITE_CHUNK])"
    by (simp add: c_facts(1,5,6) ptr zero_pad_def F35_CHUNK_SIZE_def
        del: length_take take_all_iff)
  let ?w = "Reg_Write (base + F35_CHUNK_DATA_OFFSET)
              (zero_pad (take 16 (drop (16 * ?k) image_bytes)) @ [CMD_F35_WRITE_CHUNK])"
  have wk: "reg_write dev (base + F35_CHUNK_DATA_OFFSET)
              (zero_pad (take 16 (drop (16 * ?k) image_bytes)) @ [CMD_F35_WRITE_CHUNK]) l =
            (fst (dev l ?w), l @ [?w])"
    by (simp add: reg_write_def)
  have ok: "\<not> fst (dev l ?w) < 0"
    using wr [of l] by (simp add: not_less)
  have k1: "unat (chunk + 1) = ?k + 1"
    using wlt by (rule unat_succ_u16)
  have step: "recovery_chunk_loop dev base image_bytes img_size chunk_spare chunk_total chunk
           chunk_ptr bytes_written l =
     recovery_chunk_loop dev base image_bytes img_size chunk_spare chunk_total (chunk + 1)
           (chunk_ptr + unat chunk_size) (bytes_written + ucast chunk_size) (l @ [?w])"
    using wlt cpy wk ok
    by (subst recovery_chunk_loop.simps) (simp add: chunk_size_def [symmetric])
  have d: "d = unat chunk_total - unat (chunk + 1)"
    using Suc.hyps(2) k1 by simp
  have le': "unat (chunk + 1) \<le> unat chunk_total"
    using lt k1 by simp
  have pos': "unat (chunk + 1) < unat chunk_total \<longrightarrow>
      chunk_ptr + unat chunk_size = 16 * unat (chunk + 1) \<and>
      unat (bytes_written + ucast chunk_size) = (16 * unat (chunk + 1)) mod 65536"
  proof
    assume "unat (chunk + 1) < unat chunk_total"
    then have "Suc ?k < (?n + 15) div 16"
      by (simp add: k1 total)
    from chunk_total_cases(4) [OF kT this] have c: "?c = 16" .
    have "unat (bytes_written + ucast chunk_size) = ((16 * ?k) mod 65536 + 16) mod 65536"
      by (simp add: unat_add_bw bw cs c)
    also have "\<dots> = (16 * ?k + 16) mod 65536"
      by (simp add: mod_add_left_eq)
    finally have bwn: "unat (bytes_written + ucast chunk_size) = (16 * ?k + 16) mod 65536" .
    have e: "16 * unat (chunk + 1) = 16 * ?k + 16"
      by (simp add: k1)
    have p: "chunk_ptr + unat chunk_size = 16 * ?k + 16"
      by (simp add: cs c ptr)
    show "chunk_ptr + unat chunk_size = 16 * unat (chunk + 1) \<and>
      unat (bytes_written + ucast chunk_size) = (16 * unat (chunk + 1)) mod 65536"
      unfolding e using bwn p by (intro conjI)
  qed
  have "[?k ..< unat chunk_total] = ?k # [?k + 1 ..< unat chunk_total]"
    using lt by (simp add: upt_conv_Cons)
  with Suc.hyps(1) [OF d le' pos', of "l @ [?w]"] step k1 show ?case
    by simp
qed

lemma writes_of_map_write:
  "writes_of (map (\<lambda>j. Reg_Write addr (f j)) js) = map (\<lambda>j. (addr, f j)) js"
  by (induction js) simp_all

lemma recovery_check_status_log:
  "\<exists>rv. fwu_recovery_check_status h dev s l =
     (rv, l @ [Reg_Read (unat (data_base_addr (f35_fd s)) + F35_ERROR_CODE_OFFSET) 1])"
  by (simp add: fwu_recovery_check_status_def reg_read_def Let_def)

text \<open>
  Claim C7, as stated, fails for large images: the chunk count is kept in an
  \<open>unsigned short\<close>, so for an image of 1048576 bytes, which has 65536 chunks, the count
  wraps to zero, no chunk is written, and the function returns 0.
\<close>

theorem recovery_write_chunk_1mib_counterexample:
  "fwu_recovery_write_chunk example_header idle_device
     (zero_handle\<lparr>image_buf := Some (replicate 1048576 0), image_size := 1048576\<rparr>) []
     = Some (0, [Reg_Write 0 [0, 0], Reg_Read 0 1]) \<and>
   length (recovery_chunks (replicate 1048576 0)) = 65536"
proof -
  have total: "(65536 :: u16) = 0"
    by simp
  have loop: "recovery_chunk_loop dev base image_bytes img_size 0 0 0 0 0 l = Some (0, l)"
    for dev base image_bytes img_size l
    by (subst recovery_chunk_loop.simps) simp
  have "fwu_recovery_write_chunk example_header idle_device
     (zero_handle\<lparr>image_buf := Some (replicate 1048576 0), image_size := 1048576\<rparr>) []
     = Some (0, [Reg_Write 0 [0, 0], Reg_Read 0 1])"
    by (simp add: fwu_recovery_write_chunk_def reg_write_def fwu_recovery_check_status_def
        reg_read_def zero_defs example_header_def F35_CHUNK_NUM_LSB_OFFSET_def
        F35_CHUNK_SIZE_def F35_ERROR_CODE_OFFSET_def total loop)
  moreover have "length (recovery_chunks (replicate 1048576 0)) = 65536"
    by (simp add: recovery_chunks_def F35_CHUNK_SIZE_def)
  ultimately show ?thesis
    by (rule conjI)
qed

text \<open>
  Claim C7, amended. For an image of \<open>n\<close> bytes, \<open>n\<close> at most 1048560 (65535 chunks), when
  the register writes succeed, \<open>fwu_recovery_write_chunk\<close> returns and its register writes
  are: the chunk number \<open>[0, 0]\<close>, and then one write per chunk, in order, of the 16 bytes
  of the chunk (the last chunk padded with zeros) followed by the write-chunk command
  byte. The image is split into \<open>ceil(n/16)\<close> chunks; 33 bytes give chunks of 16, 16 and
  1 bytes.
\<close>

theorem recovery_write_chunk_writes:
  assumes img: "image_buf s = Some image_bytes"
    and len: "length image_bytes = unat (image_size s)"
    and small: "length image_bytes \<le> 1048560"
    and wr: "\<And>l addr bs. 0 \<le> fst (dev l (Reg_Write addr bs))"
  shows "\<exists>retval ops. fwu_recovery_write_chunk h dev s l = Some (retval, l @ ops) \<and>
     writes_of ops =
       (unat (ctrl_base_addr (f35_fd s)) + F35_CHUNK_NUM_LSB_OFFSET, [0, 0]) #
       map (chunk_write s) (recovery_chunks image_bytes)"
proof -
  let ?n = "length image_bytes"
  let ?base = "unat (ctrl_base_addr (f35_fd s))"
  let ?w0 = "Reg_Write (?base + F35_CHUNK_NUM_LSB_OFFSET) [0, 0]"
  define chunk_spare :: byte where "chunk_spare = ucast (image_size s mod 16)"
  define chunk_total0 :: u16 where "chunk_total0 = ucast (image_size s div 16)"
  define chunk_total :: u16 where
    "chunk_total = (if chunk_spare \<noteq> 0 then chunk_total0 + 1 else chunk_total0)"
  have spare: "unat chunk_spare = ?n mod 16"
    by (simp add: chunk_spare_def unat_mod16 len)
  have sp0: "(chunk_spare \<noteq> 0) = (?n mod 16 \<noteq> 0)"
    using spare by (metis unat_eq_0)
  have q: "?n div 16 < 65536"
    using small by simp
  have total0: "unat chunk_total0 = ?n div 16"
    using q by (simp add: chunk_total0_def unat_div16 len)
  have total: "unat chunk_total = (?n + 15) div 16"
  proof (cases "?n mod 16 = 0")
    case True
    then show ?thesis
      by (simp add: chunk_total_def sp0 total0 chunk_total_nat)
  next
    case False
    from False small have "?n div 16 + 1 < 65536"
      by presburger
    then have "unat (chunk_total0 + 1) = ?n div 16 + 1"
      by (simp add: unat_word_ariths total0)
    with False show ?thesis
      by (simp add: chunk_total_def sp0 chunk_total_nat)
  qed
  have first: "reg_write dev (?base + F35_CHUNK_NUM_LSB_OFFSET) [0, 0] l = (fst (dev l ?w0), l @ [?w0])"
    by (simp add: reg_write_def)
  have ok: "\<not> fst (dev l ?w0) < 0"
    using wr [of l] by (simp add: not_less)
  have loop: "recovery_chunk_loop dev ?base image_bytes (image_size s) chunk_spare chunk_total
        0 0 0 (l @ [?w0]) =
      Some (0, (l @ [?w0]) @ map (\<lambda>j. Reg_Write (?base + F35_CHUNK_DATA_OFFSET)
                            (zero_pad (take 16 (drop (16 * j) image_bytes)) @ [CMD_F35_WRITE_CHUNK]))
                        [unat (0 :: u16) ..< unat chunk_total])"
    by (rule recovery_chunk_loop_writes [where dev = dev and image_bytes = image_bytes
          and img_size = "image_size s" and chunk_total = chunk_total
          and chunk_spare = chunk_spare and chunk = 0 and chunk_ptr = 0
          and bytes_written = 0])
      (simp_all add: wr len total spare)
  obtain rv where st: "fwu_recovery_check_status h dev s
      ((l @ [?w0]) @ map (\<lambda>j. Reg_Write (?base + F35_CHUNK_DATA_OFFSET)
                            (zero_pad (take 16 (drop (16 * j) image_bytes)) @ [CMD_F35_WRITE_CHUNK]))
                        [unat (0 :: u16) ..< unat chunk_total]) =
      (rv, ((l @ [?w0]) @ map (\<lambda>j. Reg_Write (?base + F35_CHUNK_DATA_OFFSET)
                            (zero_pad (take 16 (drop (16 * j) image_bytes)) @ [CMD_F35_WRITE_CHUNK]))
                        [unat (0 :: u16) ..< unat chunk_total]) @
            [Reg_Read (unat (data_base_addr (f35_fd s)) + F35_ERROR_CODE_OFFSET) 1])"
    using recovery_check_status_log by blast
  let ?ops = "[?w0] @ map (\<lambda>j. Reg_Write (?base + F35_CHUNK_DATA_OFFSET)
                            (zero_pad (take 16 (drop (16 * j) image_bytes)) @ [CMD_F35_WRITE_CHUNK]))
                        [0 ..< (?n + 15) div 16] @
            [Reg_Read (unat (data_base_addr (f35_fd s)) + F35_ERROR_CODE_OFFSET) 1]"
  have run: "fwu_recovery_write_chunk h dev s l =
      Some (if rv < 0 then rv else 0, l @ ?ops)"
    using img first ok loop st
    by (simp add: fwu_recovery_write_chunk_def Let_def F35_CHUNK_SIZE_def
        chunk_spare_def [symmetric] chunk_total0_def [symmetric] chunk_total_def [symmetric] total)
  have "writes_of ?ops = (?base + F35_CHUNK_NUM_LSB_OFFSET, [0, 0]) #
       map (chunk_write s) (recovery_chunks image_bytes)"
    by (simp add: writes_of_append writes_of_map_write recovery_chunks_def chunk_write_def
        F35_CHUNK_SIZE_def o_def add.commute [of 15])
  with run show ?thesis
    by blast
qed

theorem recovery_write_chunk_writes_witness:
  "image_buf (zero_handle\<lparr>image_buf := Some (replicate 16 0x11 @ replicate 16 0x22 @ [0x33]),
                 image_size := 33\<rparr>) = Some (replicate 16 0x11 @ replicate 16 0x22 @ [0x33]) \<and>
   length (replicate 16 (0x11 :: byte) @ replicate 16 0x22 @ [0x33]) = 33 \<and>
   map length (recovery_chunks (replicate 16 0x11 @ replicate 16 0x22 @ [0x33])) = [16, 16, 1] \<and>
   writes_of (snd (the (fwu_recovery_write_chunk example_header idle_device
       (zero_handle\<lparr>image_buf := Some (replicate 16 0x11 @ replicate 16 0x22 @ [0x33]),
                 image_size := 33\<rparr>) []))) =
     [(0, [0, 0]),
      (2, replicate 16 0x11 @ [CMD_F35_WRITE_CHUNK]),
      (2, replicate 16 0x22 @ [CMD_F35_WRITE_CHUNK]),
      (2, 0x33 # replicate 15 0 @ [CMD_F35_WRITE_CHUNK])]"
proof -
  let ?img = "replicate 16 (0x11 :: byte) @ replicate 16 0x22 @ [0x33]"
  let ?s = "zero_handle\<lparr>image_buf := Some ?img, image_size := 33\<rparr>"
  have img: "image_buf ?s = Some ?img"
    by simp
  have len: "length ?img = unat (image_size ?s)" and small: "length ?img \<le> 1048560"
    by simp_all
  have wr: "0 \<le> fst (idle_device l (Reg_Write addr bs))" for l addr bs
    by simp
  have chunks: "recovery_chunks ?img = [replicate 16 0x11, replicate 16 0x22, [0x33]]"
    by (simp add: recovery_chunks_def F35_CHUNK_SIZE_def upt_rec)
  from recovery_write_chunk_writes [of ?s ?img idle_device example_header "[]", OF img len small wr]
  obtain retval ops where
    run: "fwu_recovery_write_chunk example_header idle_device ?s [] = Some (retval, ops)"
    and w: "writes_of ops =
       (unat (ctrl_base_addr (f35_fd ?s)) + F35_CHUNK_NUM_LSB_OFFSET, [0, 0]) #
       map (chunk_write ?s) (recovery_chunks ?img)"
    by auto
  have "writes_of ops = [(0, [0, 0]),
      (2, replicate 16 0x11 @ [CMD_F35_WRITE_CHUNK]),
      (2, replicate 16 0x22 @ [CMD_F35_WRITE_CHUNK]),
      (2, 0x33 # replicate 15 0 @ [CMD_F35_WRITE_CHUNK])]"
    unfolding w chunks
    by (simp add: chunk_write_def zero_pad_def zero_defs F35_CHUNK_NUM_LSB_OFFSET_def
        F35_CHUNK_DATA_OFFSET_def F35_CHUNK_SIZE_def)
  with run chunks show ?thesis
    by simp
qed

subsection \<open>The TDAT image format\<close>

text \<open>The recursive description of a tiled buffer and the one by a list of records
  agree.\<close>

lemma le24_bytes_of:
  assumes "n < 2 ^ 24"
  shows "le24 (word_of_nat n) (word_of_nat (n div 256)) (word_of_nat (n div 65536)) = n"
proof -
  have "n div 65536 < 256"
    using assms by simp
  then have "le24 (word_of_nat n) (word_of_nat (n div 256)) (word_of_nat (n div 65536)) =
      n mod 256 + 256 * (n div 256 mod 256) + 65536 * (n div 65536)"
    by (simp add: le24_def unat_of_nat)
  also have "n div 256 mod 256 = n mod 65536 div 256"
    by (simp add: mod_mult2_eq [of n 256 256, simplified] div_add1_eq)
  also have "n mod 256 + 256 * (n mod 65536 div 256) + 65536 * (n div 65536) = n"
  proof -
    have "n mod 65536 mod 256 = n mod 256"
      by (simp add: mod_mod_cancel)
    then have "n mod 256 + 256 * (n mod 65536 div 256) = n mod 65536"
      by (metis add.commute mult_div_mod_eq)
    then show ?thesis
      by simp
  qed
  finally show ?thesis .
qed

lemma bytes_of_le24:
  fixes b0 b1 b2 :: byte
  defines "n \<equiv> le24 b0 b1 b2"
  shows "word_of_nat n = b0" and "word_of_nat (n div 256) = b1"
    and "word_of_nat (n div 65536) = b2" and "n < 2 ^ 24"
proof -
  have l: "unat b0 < 256" "unat b1 < 256" "unat b2 < 256"
    using unsigned_less [of b0] unsigned_less [of b1] unsigned_less [of b2] by simp_all
  have d1: "n div 256 = unat b1 + 256 * unat b2"
    using l by (simp add: n_def le24_def)
  have d2: "n div 65536 = unat b2"
    using l by (simp add: n_def le24_def)
  have z: "(256 :: byte) = 0" "(65536 :: byte) = 0"
    by simp_all
  show "word_of_nat n = b0"
    by (simp add: n_def le24_def z)
  show "word_of_nat (n div 256) = b1"
    by (simp add: d1 z)
  show "word_of_nat (n div 65536) = b2"
    by (simp add: d2)
  show "n < 2 ^ 24"
    using l by (simp add: n_def le24_def)
qed

lemma tdat_tiles_records:
  "tdat_tiles body \<Longrightarrow>
     \<exists>recs. (\<forall>r \<in> set recs. length (snd r) < 2 ^ 24) \<and> body = concat (map tdat_record recs)"
proof (induction body rule: tdat_tiles.induct)
  case 1
  show ?case
    by (rule exI [of _ "[]"]) simp
next
  case (2 rid b0 b1 b2 rest)
  let ?n = "le24 b0 b1 b2"
  from "2.prems" have n: "?n \<le> length rest" and t: "tdat_tiles (drop ?n rest)"
    by simp_all
  from "2.IH" [OF t] obtain recs where
    recs: "\<forall>r \<in> set recs. length (snd r) < 2 ^ 24" "drop ?n rest = concat (map tdat_record recs)"
    by blast
  have "tdat_record (rid, take ?n rest) = rid # b0 # b1 # b2 # take ?n rest"
    using n by (simp add: tdat_record_def bytes_of_le24 min_def)
  moreover have "rest = take ?n rest @ drop ?n rest"
    by simp
  ultimately have "rid # b0 # b1 # b2 # rest = concat (map tdat_record ((rid, take ?n rest) # recs))"
    using recs(2) by simp
  moreover have "\<forall>r \<in> set ((rid, take ?n rest) # recs). length (snd r) < 2 ^ 24"
    using recs(1) n bytes_of_le24(4) [of b0 b1 b2] by (simp add: min_def)
  ultimately show ?case
    by blast
qed simp_all

lemma records_tdat_tiles:
  "\<forall>r \<in> set recs. length (snd r) < 2 ^ 24 \<Longrightarrow> tdat_tiles (concat (map tdat_record recs))"
proof (induction recs)
  case Nil
  show ?case by simp
next
  case (Cons r recs)
  then have n: "length (snd r) < 2 ^ 24" and rest: "tdat_tiles (concat (map tdat_record recs))"
    by simp_all
  from le24_bytes_of [OF n] rest show ?case
    by (simp add: tdat_record_def [of r])
qed

lemma tdat_tiles_iff_records:
  "tdat_tiles body \<longleftrightarrow>
     (\<exists>recs. (\<forall>r \<in> set recs. length (snd r) < 2 ^ 24) \<and> body = concat (map tdat_record recs))"
  using tdat_tiles_records records_tdat_tiles by blast

text \<open>The length of a record as the loop computes it, with shifts and \<open>OR\<close>, is the
  little-endian number of its three length bytes.\<close>

lemma le24_or_eq_add:
  fixes b1 b2 b3 :: byte
  shows "push_bit 16 (ucast b3 :: u32) OR push_bit 8 (ucast b2) OR ucast b1 =
         push_bit 16 (ucast b3) + (push_bit 8 (ucast b2) + ucast b1)"
proof -
  have a: "push_bit 8 (ucast b2 :: u32) + ucast b1 = push_bit 8 (ucast b2) OR ucast b1"
    by (rule disjunctive_add) (auto simp: bit_simps dest: bit_imp_le_length)
  have b: "push_bit 16 (ucast b3 :: u32) + (push_bit 8 (ucast b2) OR ucast b1) =
           push_bit 16 (ucast b3) OR (push_bit 8 (ucast b2) OR ucast b1)"
    by (rule disjunctive_add) (auto simp: bit_simps dest: bit_imp_le_length)
  show ?thesis
    by (simp add: a b or.assoc)
qed

lemma unat_le24:
  fixes b1 b2 b3 :: byte
  shows "unat (push_bit 16 (ucast b3 :: u32) OR push_bit 8 (ucast b2) OR ucast b1) =
         unat b1 + 256 * unat b2 + 65536 * unat b3"
proof -
  have l1: "unat b1 < 256" and l2: "unat b2 < 256" and l3: "unat b3 < 256"
    using unsigned_less [of b1] unsigned_less [of b2] unsigned_less [of b3] by simp_all
  have p: "push_bit 16 (ucast b3 :: u32) = ucast b3 * 65536" "push_bit 8 (ucast b2 :: u32) = ucast b2 * 256"
    by (simp_all add: push_bit_eq_mult)
  have "unat (push_bit 16 (ucast b3 :: u32) OR push_bit 8 (ucast b2) OR ucast b1) =
        unat (ucast b3 * 65536 + (ucast b2 * 256 + ucast b1) :: u32)"
    by (subst le24_or_eq_add) (simp only: p)
  also have "\<dots> = (unat b3 * 65536 + (unat b2 * 256 + unat b1)) mod 4294967296"
    by (simp add: unat_word_ariths unat_ucast_8_32 mod_simps)
  also have "\<dots> = unat b3 * 65536 + (unat b2 * 256 + unat b1)"
    using l1 l2 l3 by simp
  finally show ?thesis
    by simp
qed

text \<open>The first loop on a buffer of the stated size, small enough that no offset
  computation wraps: it ends, and how it ends is how the walk over the records ends. It
  accepts exactly the buffers that the records tile, rejects a record whose payload runs
  over the end, and reads behind the buffer when the end cuts a record's header.\<close>

lemma tdat_length_le24:
  assumes "unat offset + 4 \<le> length data" and "length data < 2 ^ 32"
  shows "\<exists>w. tdat_length (Some data) offset = Inr w \<and>
           unat w = le24 (data ! (unat offset + 1)) (data ! (unat offset + 2))
                      (data ! (unat offset + 3))"
proof -
  have k: "unat (offset + 1) = unat offset + 1" "unat (offset + 2) = unat offset + 2"
    "unat (offset + 3) = unat offset + 3"
    using assms by (simp_all add: unat_word_ariths)
  show ?thesis
    using assms by (simp add: tdat_length_def read_byte_def unat_le24 k le24_def)
qed

lemma tdat_length_cut:
  assumes "unat offset < length data" and "length data < unat offset + 4"
    and "length data < 2 ^ 32 - 3"
  shows "tdat_length (Some data) offset = Inl Out_Of_Bounds"
proof -
  have "unat (offset + 3) = unat offset + 3"
    using assms by (simp add: unat_word_ariths)
  with assms show ?thesis
    by (simp add: tdat_length_def read_byte_def)
qed

lemma tdat_walk_short:
  assumes "xs \<noteq> []" and "length xs < 4"
  shows "tdat_walk xs = Header_Cut"
proof -
  from assms obtain a where "xs = [a] \<or> (\<exists>b. xs = [a, b]) \<or> (\<exists>b c. xs = [a, b, c])"
    by (cases xs; cases "tl xs"; cases "tl (tl xs)"; cases "tl (tl (tl xs))") auto
  then show ?thesis
    by auto
qed

lemma tdat_walk_tiled: "tdat_walk xs = Tiled \<longleftrightarrow> tdat_tiles xs"
  by (induction xs rule: tdat_tiles.induct) simp_all

lemma tdat_check_loop_walk:
  assumes len: "length data = unat fw_size"
    and bound: "length data < 2 ^ 32 - 2 ^ 24 - 2"
    and off: "unat offset \<le> length data"
  shows "tdat_check_loop (Some data) fw_size offset =
         Some (case tdat_walk (drop (unat offset) data) of
                 Tiled \<Rightarrow> Inr (Inr fw_size)
               | Payload_Overrun \<Rightarrow> Inr (Inl (- EINVAL))
               | Header_Cut \<Rightarrow> Inl Out_Of_Bounds)"
  using off
proof (induction "length data - unat offset" arbitrary: offset rule: less_induct)
  case less
  let ?N = "length data"
  let ?o = "unat offset"
  have N: "?N < 4278190078"
    using bound by simp
  show ?case
  proof (cases "?o = ?N")
    case True
    then have eq: "offset = fw_size"
      by (simp add: len word_unat_eq_iff)
    then show ?thesis
      by (subst tdat_check_loop.simps) (simp add: len)
  next
    case False
    with less.prems have lt: "?o < ?N"
      by simp
    then have wlt: "offset < fw_size"
      by (simp add: word_less_nat_alt len)
    have rd: "read_byte (Some data) ?o = Inr (data ! ?o)"
      using lt by (simp add: read_byte_def)
    show ?thesis
    proof (cases "?o + 4 \<le> ?N")
      case False
      with lt have "drop ?o data \<noteq> []" "length (drop ?o data) < 4"
        by simp_all
      then have w: "tdat_walk (drop ?o data) = Header_Cut"
        by (rule tdat_walk_short)
      from lt False N have "tdat_length (Some data) offset = Inl Out_Of_Bounds"
        by (intro tdat_length_cut) simp_all
      with wlt w show ?thesis
        by (subst tdat_check_loop.simps) simp
    next
      case hdr: True
      define b1 b2 b3 where "b1 = data ! (?o + 1)" and "b2 = data ! (?o + 2)"
        and "b3 = data ! (?o + 3)"
      from tdat_length_le24 [of offset data] hdr N obtain w where
        w: "tdat_length (Some data) offset = Inr w" and Lval: "unat w = le24 b1 b2 b3"
        unfolding b1_def b2_def b3_def by auto
      let ?L = "unat w"
      have L: "?L < 16777216"
        using bytes_of_le24(4) [of b1 b2 b3] by (simp add: Lval)
      have sum: "unat (offset + w + 4) = ?o + ?L + 4"
        using lt N L by (simp add: unat_word_ariths)
      have gt: "(offset + w + 4 > fw_size) = (?o + ?L + 4 > ?N)"
        by (simp add: word_less_nat_alt sum len)
      have step: "tdat_check_loop (Some data) fw_size offset =
          (if ?o + ?L + 4 > ?N then Some (Inr (Inl (- EINVAL)))
           else tdat_check_loop (Some data) fw_size (offset + w + 4))"
        using wlt by (subst tdat_check_loop.simps) (simp add: w gt rd)
      have d: "drop ?o data = data ! ?o # b1 # b2 # b3 # drop (?o + 4) data"
        unfolding b1_def b2_def b3_def
        using hdr by (simp add: Cons_nth_drop_Suc numeral_eq_Suc)
      have "tdat_walk (drop ?o data) =
          (if ?L \<le> length (drop (?o + 4) data) then tdat_walk (drop ?L (drop (?o + 4) data))
           else Payload_Overrun)"
        unfolding d tdat_walk.simps Lval ..
      also have "drop ?L (drop (?o + 4) data) = drop (?o + ?L + 4) data"
        by (simp add: ac_simps)
      finally have walk: "tdat_walk (drop ?o data) =
          (if ?L \<le> ?N - (?o + 4) then tdat_walk (drop (?o + ?L + 4) data)
           else Payload_Overrun)"
        by simp
      show ?thesis
      proof (cases "?o + ?L + 4 > ?N")
        case over: True
        with hdr have "\<not> ?L \<le> ?N - (?o + 4)"
          by arith
        with over show ?thesis
          by (simp add: step walk)
      next
        case fits: False
        with hdr have inside: "?L \<le> ?N - (?o + 4)"
          by arith
        from fits lt have le': "unat (offset + w + 4) \<le> ?N"
          and dec: "?N - unat (offset + w + 4) < ?N - ?o"
          by (simp_all add: sum)
        from less.hyps [OF dec le'] fits inside show ?thesis
          by (simp add: step walk sum)
      qed
    qed
  qed
qed

text \<open>\<open>fwu_parse_tdat_image\<close> on an image of at least one byte, in a buffer of the
  stated size below \<open>2^32 - 2^24 - 2\<close> bytes. The records are looked for behind the
  first byte, the format tag. Only when they tile the rest of the buffer are they
  extracted; a payload that runs over the end gives \<open>-EINVAL\<close> with the flags cleared
  and nothing extracted.\<close>

lemma parse_tdat_image_first_pass:
  assumes img: "image_buf s = Some data" and ne: "data \<noteq> []"
    and len: "length data = unat (image_size s)"
    and bound: "length data < 2 ^ 32 - 2 ^ 24 - 2"
  shows "fwu_parse_tdat_image h s =
     (case tdat_walk (tl data) of
        Header_Cut \<Rightarrow> Some (Inl Out_Of_Bounds)
      | Payload_Overrun \<Rightarrow> Some (Inr (- EINVAL, tdat_clear_flags s))
      | Tiled \<Rightarrow>
          (case tdat_extract_loop h (Some data) (image_size s) 1 (img (tdat_clear_flags s)) of
             None \<Rightarrow> None
           | Some (Inl f) \<Rightarrow> Some (Inl f)
           | Some (Inr im) \<Rightarrow> Some (Inr (0, (tdat_clear_flags s)\<lparr>img := im\<rparr>))))"
proof -
  from ne have one: "unat (1 :: u32) \<le> length data"
    by (cases data) simp_all
  have "tdat_check_loop (Some data) (image_size s) 1 =
      Some (case tdat_walk (drop (unat (1 :: u32)) data) of
              Tiled \<Rightarrow> Inr (Inr (image_size s))
            | Payload_Overrun \<Rightarrow> Inr (Inl (- EINVAL))
            | Header_Cut \<Rightarrow> Inl Out_Of_Bounds)"
    using len bound one by (rule tdat_check_loop_walk)
  then have "tdat_check_loop (Some data) (image_size s) 1 =
      Some (case tdat_walk (tl data) of
              Tiled \<Rightarrow> Inr (Inr (image_size s))
            | Payload_Overrun \<Rightarrow> Inr (Inl (- EINVAL))
            | Header_Cut \<Rightarrow> Inl Out_Of_Bounds)"
    by (simp add: drop_Suc)
  with img show ?thesis
    by (cases "tdat_walk (tl data)") (simp_all add: fwu_parse_tdat_image_def Let_def)
qed

text \<open>Two images that pass the first loop: in the first the configuration record has no
  sub-record and the UI configuration pointer, still null, is read through; the second
  is extracted.\<close>

lemma parse_tdat_image_null_config:
  "fwu_parse_tdat_image example_header
     (zero_handle\<lparr>image_buf := Some null_config_image, image_size := 12\<rparr>) =
     Some (Inl Null_Dereference)"
  by (simp add: fwu_parse_tdat_image_def null_config_image_def Let_def
      tdat_check_loop.simps tdat_extract_loop.simps tdat_length_def read_byte_def
      read_bytes_def tdat_extract_record_def fwu_tdat_config_set_def
      fwu_tdat_config_set_loop.simps fwu_tdat_section_offset_def EINVAL_def
      tdat_clear_flags_def zero_defs example_header_def)

lemma parse_tdat_image_complete:
  "fwu_parse_tdat_image example_header
     (zero_handle\<lparr>image_buf := Some complete_image, image_size := 23\<rparr>) =
     Some (Inr (0, zero_handle\<lparr>image_buf := Some complete_image, image_size := 23,
       img := zero_image_metadata\<lparr>contains_firmware_id := True, firmware_id := 0x1000,
         ui_firmware := \<lparr>bd_size = 2, bd_data = Some (drop 9 complete_image)\<rparr>,
         ui_config := \<lparr>bd_size = 2, bd_data = Some [0xc1, 0xc2]\<rparr>\<rparr>\<rparr>))"
  by (simp add: fwu_parse_tdat_image_def complete_image_def Let_def
      tdat_check_loop.simps tdat_extract_loop.simps tdat_length_def read_byte_def
      read_bytes_def tdat_extract_record_def fwu_tdat_config_set_def
      fwu_tdat_config_set_loop.simps fwu_tdat_section_offset_def EINVAL_def
      tdat_clear_flags_def zero_defs example_header_def)

text \<open>
  Claim C5 (a defect of the code). An image of three bytes, the format tag \<open>0x31\<close> and a
  record stream that ends after the id and one length byte of its first record: a
  truncated record stream, which validation should reject with \<open>-EINVAL\<close>. The first
  loop reads the three length bytes of the record before it tests anything, two of them
  behind the end of the buffer: the behaviour is undefined, not a rejection.
\<close>

theorem parse_tdat_image_cut_header_out_of_bounds:
  "fwu_tdat_image_format (Some cut_header_image) = Inr True \<and>
   fwu_parse_tdat_image example_header
     (zero_handle\<lparr>image_buf := Some cut_header_image, image_size := 3\<rparr>) =
     Some (Inl Out_Of_Bounds)"
  by (simp add: fwu_tdat_image_format_def fwu_parse_tdat_image_def cut_header_image_def
      tdat_check_loop.simps tdat_length_def read_byte_def)

end
